theory Spec2Isabelle
  imports Complex_Main
begin

section \<open>Enemy missiles of gym\_missile\_command\<close>

text \<open>
  A shallow embedding of \<^verbatim>\<open>gym_missile_command/game/enemy_missiles.py\<close>
  (class \<^verbatim>\<open>EnemyMissiles\<close>).

  Numbers. A floating-point number is a real, an infinity or NaN. The array
  \<^verbatim>\<open>enemy_missiles\<close> has \<^verbatim>\<open>dtype=np.float32\<close>: every sum, difference and
  product of cells is rounded to IEEE binary32 (to nearest, ties to even), as is every
  value stored into the array. The Python floats and the \<^verbatim>\<open>numpy.float64\<close> scalars
  of \<^verbatim>\<open>_launch_missile\<close> are binary64 numbers: every product, sum, difference,
  quotient, square and square root of them is rounded to binary64, so that it can
  underflow to zero or overflow to an infinity, and a scalar stored into the array is
  rounded a second time, to binary32. The numbers of the configuration and the values
  of the generator are given as reals; in a run of the program they are binary64
  numbers.

  The two zeros of IEEE arithmetic are the one number \<open>Fin 0\<close>. The program compares
  numbers with \<^verbatim>\<open>==\<close>, \<^verbatim>\<open>numpy.minimum\<close> and \<^verbatim>\<open>numpy.sign\<close>, which do not tell
  \<^verbatim>\<open>-0.0\<close> from \<^verbatim>\<open>0.0\<close>, and its one divisor, the norm, is a square root of a sum
  of two squares, which is never \<^verbatim>\<open>-0.0\<close>.
\<close>

subsection \<open>Floating-point numbers\<close>

datatype npfloat = Fin real | PInf | NInf | NaN

text \<open>The integer nearest to \<open>n\<close>, the even one of the two when \<open>n\<close> lies half way.\<close>

definition round_half_even :: "real \<Rightarrow> int" where
  "round_half_even n =
     (if n - of_int \<lfloor>n\<rfloor> < 1 / 2 then \<lfloor>n\<rfloor>
      else if 1 / 2 < n - of_int \<lfloor>n\<rfloor> then \<lfloor>n\<rfloor> + 1
      else if even \<lfloor>n\<rfloor> then \<lfloor>n\<rfloor> else \<lfloor>n\<rfloor> + 1)"

text \<open>
  Rounding of a real to the binary format with \<open>p\<close> significant bits and exponents from
  \<open>emin\<close> to \<open>emax\<close>: the exponent \<open>e\<close> of \<open>x\<close> (not below \<open>emin\<close>, where the
  subnormal numbers lie) gives the spacing \<open>q\<close> of the format's numbers around \<open>x\<close>;
  \<open>x\<close> goes to the nearest multiple of \<open>q\<close>, and to an infinity when that exceeds the
  format's largest number.
\<close>

definition round_binary :: "int \<Rightarrow> int \<Rightarrow> int \<Rightarrow> real \<Rightarrow> npfloat" where
  "round_binary p emin emax x =
     (if x = 0 then Fin 0
      else (let e = max \<lfloor>log 2 \<bar>x\<bar>\<rfloor> emin;
                q = 2 powi (e - (p - 1));
                y = of_int (round_half_even (\<bar>x\<bar> / q)) * q
            in if 2 powi (emax + 1) \<le> y then (if 0 < x then PInf else NInf)
               else Fin (sgn x * y)))"

text \<open>IEEE binary32: 24 significant bits, exponents from \<open>-126\<close> to \<open>127\<close>.\<close>

definition float32 :: "real \<Rightarrow> npfloat" where
  "float32 x = round_binary 24 (- 126) 127 x"

text \<open>IEEE binary64: 53 significant bits, exponents from \<open>-1022\<close> to \<open>1023\<close>.\<close>

definition float64 :: "real \<Rightarrow> npfloat" where
  "float64 x = round_binary 53 (- 1022) 1023 x"

text \<open>Storing a binary64 scalar into the array.\<close>

fun as_float32 :: "npfloat \<Rightarrow> npfloat" where
  "as_float32 (Fin a) = float32 a"
| "as_float32 PInf = PInf"
| "as_float32 NInf = NInf"
| "as_float32 NaN = NaN"

fun np_negative :: "npfloat \<Rightarrow> npfloat" where
  "np_negative (Fin a) = Fin (- a)"
| "np_negative PInf = NInf"
| "np_negative NInf = PInf"
| "np_negative NaN = NaN"

fun np_add :: "npfloat \<Rightarrow> npfloat \<Rightarrow> npfloat" where
  "np_add (Fin a) (Fin b) = float32 (a + b)"
| "np_add NaN _ = NaN"
| "np_add _ NaN = NaN"
| "np_add PInf NInf = NaN"
| "np_add NInf PInf = NaN"
| "np_add PInf _ = PInf"
| "np_add _ PInf = PInf"
| "np_add NInf _ = NInf"
| "np_add _ NInf = NInf"

definition np_subtract :: "npfloat \<Rightarrow> npfloat \<Rightarrow> npfloat" where
  "np_subtract a b = np_add a (np_negative b)"

fun np_abs :: "npfloat \<Rightarrow> npfloat" where
  "np_abs (Fin a) = Fin \<bar>a\<bar>"
| "np_abs PInf = PInf"
| "np_abs NInf = PInf"
| "np_abs NaN = NaN"

fun np_sign :: "npfloat \<Rightarrow> npfloat" where
  "np_sign (Fin a) = Fin (sgn a)"
| "np_sign PInf = Fin 1"
| "np_sign NInf = Fin (- 1)"
| "np_sign NaN = NaN"

text \<open>The sign of a cell that is not NaN, as a real: \<open>-1\<close>, \<open>0\<close> or \<open>1\<close>.\<close>

fun sign_of :: "npfloat \<Rightarrow> real" where
  "sign_of (Fin a) = sgn a"
| "sign_of PInf = 1"
| "sign_of NInf = - 1"
| "sign_of NaN = 0"

fun np_multiply :: "npfloat \<Rightarrow> npfloat \<Rightarrow> npfloat" where
  "np_multiply (Fin a) (Fin b) = float32 (a * b)"
| "np_multiply NaN _ = NaN"
| "np_multiply _ NaN = NaN"
| "np_multiply a b =
     (if sign_of a * sign_of b = 0 then NaN
      else if 0 < sign_of a * sign_of b then PInf else NInf)"

fun np_less_equal :: "npfloat \<Rightarrow> npfloat \<Rightarrow> bool" where
  "np_less_equal NaN _ = False"
| "np_less_equal _ NaN = False"
| "np_less_equal (Fin a) (Fin b) = (a \<le> b)"
| "np_less_equal NInf _ = True"
| "np_less_equal _ PInf = True"
| "np_less_equal _ _ = False"

text \<open>\<^verbatim>\<open>numpy.minimum\<close> propagates NaN.\<close>

fun np_minimum :: "npfloat \<Rightarrow> npfloat \<Rightarrow> npfloat" where
  "np_minimum NaN _ = NaN"
| "np_minimum _ NaN = NaN"
| "np_minimum a b = (if np_less_equal a b then a else b)"

text \<open>\<^verbatim>\<open>==\<close> on cells: NaN equals nothing, itself included.\<close>

fun np_equal :: "npfloat \<Rightarrow> npfloat \<Rightarrow> bool" where
  "np_equal NaN _ = False"
| "np_equal _ NaN = False"
| "np_equal a b = (a = b)"

subsection \<open>Binary64 scalars\<close>

text \<open>Sum, difference and product of Python floats and of \<^verbatim>\<open>numpy.float64\<close>
  scalars: none of them raises.\<close>

fun float_add :: "npfloat \<Rightarrow> npfloat \<Rightarrow> npfloat" where
  "float_add (Fin a) (Fin b) = float64 (a + b)"
| "float_add NaN _ = NaN"
| "float_add _ NaN = NaN"
| "float_add PInf NInf = NaN"
| "float_add NInf PInf = NaN"
| "float_add PInf _ = PInf"
| "float_add _ PInf = PInf"
| "float_add NInf _ = NInf"
| "float_add _ NInf = NInf"

definition float_subtract :: "npfloat \<Rightarrow> npfloat \<Rightarrow> npfloat" where
  "float_subtract a b = float_add a (np_negative b)"

fun float_multiply :: "npfloat \<Rightarrow> npfloat \<Rightarrow> npfloat" where
  "float_multiply (Fin a) (Fin b) = float64 (a * b)"
| "float_multiply NaN _ = NaN"
| "float_multiply _ NaN = NaN"
| "float_multiply a b =
     (if sign_of a * sign_of b = 0 then NaN
      else if 0 < sign_of a * sign_of b then PInf else NInf)"

text \<open>\<^verbatim>\<open>numpy.square\<close> and \<^verbatim>\<open>numpy.sqrt\<close> on a scalar; the square root is
  correctly rounded, and that of a negative number is NaN.\<close>

definition np_square :: "npfloat \<Rightarrow> npfloat" where
  "np_square a = float_multiply a a"

fun np_sqrt :: "npfloat \<Rightarrow> npfloat" where
  "np_sqrt (Fin a) = (if a < 0 then NaN else float64 (sqrt a))"
| "np_sqrt PInf = PInf"
| "np_sqrt NInf = NaN"
| "np_sqrt NaN = NaN"

text \<open>
  \<^verbatim>\<open>a / b\<close> with \<^verbatim>\<open>b\<close> a \<^verbatim>\<open>numpy.float64\<close>: a zero divisor gives NaN or an
  infinity (with a warning), it does not raise. The zero divisor is \<^verbatim>\<open>0.0\<close>.
\<close>

fun np_true_divide :: "npfloat \<Rightarrow> npfloat \<Rightarrow> npfloat" where
  "np_true_divide NaN _ = NaN"
| "np_true_divide _ NaN = NaN"
| "np_true_divide (Fin a) (Fin b) =
     (if b \<noteq> 0 then float64 (a / b)
      else if a = 0 then NaN
      else if 0 < a then PInf else NInf)"
| "np_true_divide (Fin a) _ = Fin 0"
| "np_true_divide PInf (Fin b) = (if 0 \<le> b then PInf else NInf)"
| "np_true_divide NInf (Fin b) = (if 0 \<le> b then NInf else PInf)"
| "np_true_divide _ _ = NaN"

subsection \<open>Configuration and the random generator\<close>

text \<open>
  The module \<^verbatim>\<open>gym_missile_command.configuration\<close> is not part of the sources at
  hand, so the values of \<^verbatim>\<open>CONFIG\<close> that the class reads are parameters. A
  curriculum queue is \<open>None\<close> or a list of pairs; the two queues are taken to be
  distinct list objects, owned by the one instance that pops them.
\<close>

type_synonym pos_range = "real \<times> real"

record config =
  EPISODE_WIDTH :: real
  EPISODE_HEIGHT :: real
  ENEMY_MISSILES_NUMBER :: int
  ENEMY_MISSILES_PROBA_IN :: real
  ENEMY_MISSILES_SPEED :: real
  START_POS_RANGE_CUR :: "pos_range list option"
  END_POS_RANGE_CUR :: "pos_range list option"

text \<open>
  A generator of Python's \<^verbatim>\<open>random.Random\<close> is the stream of the values its
  \<^verbatim>\<open>random()\<close> will return. \<^verbatim>\<open>Random(seed)\<close> with an integer seed is a
  function \<open>mt\<close> of the seed (the Mersenne Twister of the standard library, a parameter
  here); with no seed the generator comes from the operating system's entropy, a further
  argument \<open>entropy\<close> that differs from call to call.
\<close>

type_synonym rng = "nat \<Rightarrow> real"

definition rng_random :: "rng \<Rightarrow> real \<times> rng" where
  "rng_random g = (g 0, \<lambda>n. g (Suc n))"

text \<open>\<^verbatim>\<open>Random.uniform(a, b)\<close> is \<^verbatim>\<open>a + (b - a) * self.random()\<close>, on floats.\<close>

definition rng_uniform :: "npfloat \<Rightarrow> npfloat \<Rightarrow> rng \<Rightarrow> npfloat \<times> rng" where
  "rng_uniform a b g =
     (let (u, g') = rng_random g
      in (float_add a (float_multiply (float_subtract b a) (Fin u)), g'))"

definition Random :: "(int \<Rightarrow> rng) \<Rightarrow> rng \<Rightarrow> int option \<Rightarrow> rng" where
  "Random mt entropy seed = (case seed of None \<Rightarrow> entropy | Some n \<Rightarrow> mt n)"

text \<open>The values of \<^verbatim>\<open>random()\<close> lie in \<open>[0, 1)\<close>.\<close>

definition unit_rng :: "rng \<Rightarrow> bool" where
  "unit_rng g = (\<forall>n. 0 \<le> g n \<and> g n < 1)"

subsection \<open>The object\<close>

datatype error = IndexError | AssertionError

text \<open>A row of the array \<^verbatim>\<open>enemy_missiles\<close>, columns 0 to 7.\<close>

record missile =
  init_x :: npfloat
  init_y :: npfloat
  cur_x :: npfloat
  cur_y :: npfloat
  fin_x :: npfloat
  fin_y :: npfloat
  vel_x :: npfloat
  vel_y :: npfloat

text \<open>
  \<^verbatim>\<open>__init__\<close> sets the four curriculum attributes only; \<^verbatim>\<open>reset\<close> adds the
  array, the counter and the generator. A method that reads the latter three needs an
  object that has been reset, which the record extension expresses.
\<close>

record curriculum =
  start_pos_range_cur :: "pos_range list"
  end_pos_range_cur :: "pos_range list"
  start_pos_range :: pos_range
  end_pos_range :: pos_range

record batch = curriculum +
  enemy_missiles :: "missile list"
  nb_missiles_launched :: int
  rng_python :: rng

definition full_range :: pos_range where
  "full_range = (- (1 / 2), 1 / 2)"

text \<open>\<^verbatim>\<open>list.pop(0)\<close> raises \<^verbatim>\<open>IndexError\<close> on an empty list.\<close>

definition pop0 :: "'a list \<Rightarrow> error + ('a \<times> 'a list)" where
  "pop0 xs = (case xs of [] \<Rightarrow> Inl IndexError | x # xs' \<Rightarrow> Inr (x, xs'))"

definition configured_queue :: "pos_range list option \<Rightarrow> pos_range list" where
  "configured_queue q = (case q of None \<Rightarrow> [full_range] | Some xs \<Rightarrow> xs)"

definition init :: "config \<Rightarrow> error + curriculum" where
  "init cfg =
     (let sq = configured_queue (START_POS_RANGE_CUR cfg);
          eq = configured_queue (END_POS_RANGE_CUR cfg)
      in case pop0 sq of
           Inl e \<Rightarrow> Inl e
         | Inr (sr, sq') \<Rightarrow>
             (case pop0 eq of
                Inl e \<Rightarrow> Inl e
              | Inr (er, eq') \<Rightarrow>
                  Inr \<lparr>start_pos_range_cur = sq', end_pos_range_cur = eq',
                       start_pos_range = sr, end_pos_range = er\<rparr>))"

definition advance_curriculum :: "'a curriculum_scheme \<Rightarrow> 'a curriculum_scheme" where
  "advance_curriculum s =
     (let s1 = (if length (start_pos_range_cur s) > 0
                then s\<lparr>start_pos_range := hd (start_pos_range_cur s),
                       start_pos_range_cur := tl (start_pos_range_cur s)\<rparr>
                else s\<lparr>start_pos_range := full_range\<rparr>)
      in if length (end_pos_range_cur s1) > 0
         then s1\<lparr>end_pos_range := hd (end_pos_range_cur s1),
                 end_pos_range_cur := tl (end_pos_range_cur s1)\<rparr>
         else s1\<lparr>end_pos_range := full_range\<rparr>)"

text \<open>
  The setters return the exception raised, if any, and the object as it is afterwards:
  an \<^verbatim>\<open>assert\<close> that fails leaves before the assignment.
\<close>

definition set_start_pos_range ::
  "real \<Rightarrow> real \<Rightarrow> 'a curriculum_scheme \<Rightarrow> error option \<times> 'a curriculum_scheme" where
  "set_start_pos_range left right s =
     (if \<not> (- (1 / 2) \<le> left \<and> left \<le> 1 / 2) then (Some AssertionError, s)
      else if \<not> (- (1 / 2) \<le> right \<and> right \<le> 1 / 2) then (Some AssertionError, s)
      else (None, s\<lparr>start_pos_range := (left, right)\<rparr>))"

definition set_end_pos_range ::
  "real \<Rightarrow> real \<Rightarrow> 'a curriculum_scheme \<Rightarrow> error option \<times> 'a curriculum_scheme" where
  "set_end_pos_range left right s =
     (if \<not> (- (1 / 2) \<le> left \<and> left \<le> 1 / 2) then (Some AssertionError, s)
      else if \<not> (- (1 / 2) \<le> right \<and> right \<le> 1 / 2) then (Some AssertionError, s)
      else (None, s\<lparr>end_pos_range := (left, right)\<rparr>))"

text \<open>
  The norm that \<^verbatim>\<open>_launch_missile\<close> computes from the two abscissae it drew,
  \<^verbatim>\<open>np.sqrt(np.square(x1 - x0) + np.square(y1 - y0))\<close> with \<^verbatim>\<open>y0\<close> the height
  and \<^verbatim>\<open>y1 = 0.0\<close>.
\<close>

definition launch_norm :: "config \<Rightarrow> npfloat \<Rightarrow> npfloat \<Rightarrow> npfloat" where
  "launch_norm cfg x0 x1 =
     (let y0 = Fin (EPISODE_HEIGHT cfg);
          y1 = Fin 0
      in np_sqrt (float_add (np_square (float_subtract x1 x0))
                    (np_square (float_subtract y1 y0))))"

text \<open>The row that \<^verbatim>\<open>_launch_missile\<close> builds from them: no statement of the method
  looks at the norm before dividing by it.\<close>

definition new_missile :: "config \<Rightarrow> npfloat \<Rightarrow> npfloat \<Rightarrow> missile" where
  "new_missile cfg x0 x1 =
     (let y0 = Fin (EPISODE_HEIGHT cfg);
          y1 = Fin 0;
          norm = launch_norm cfg x0 x1;
          ux = np_true_divide (float_subtract x1 x0) norm;
          uy = np_true_divide (float_subtract y1 y0) norm;
          vx = float_multiply (Fin (ENEMY_MISSILES_SPEED cfg)) ux;
          vy = float_multiply (Fin (ENEMY_MISSILES_SPEED cfg)) uy
      in \<lparr>init_x = as_float32 x0, init_y = as_float32 y0,
          cur_x = as_float32 x0, cur_y = as_float32 y0,
          fin_x = as_float32 x1, fin_y = as_float32 y1,
          vel_x = as_float32 vx, vel_y = as_float32 vy\<rparr>)"

text \<open>The bounds of a draw: an end of the active range times the width.\<close>

definition scaled :: "real \<Rightarrow> config \<Rightarrow> npfloat" where
  "scaled a cfg = float_multiply (Fin a) (Fin (EPISODE_WIDTH cfg))"

definition launch_missile :: "config \<Rightarrow> batch \<Rightarrow> batch" where
  "launch_missile cfg s =
     (let (x0, g1) = rng_uniform (scaled (fst (start_pos_range s)) cfg)
                       (scaled (snd (start_pos_range s)) cfg) (rng_python s);
          (x1, g2) = rng_uniform (scaled (fst (end_pos_range s)) cfg)
                       (scaled (snd (end_pos_range s)) cfg) g1
      in s\<lparr>enemy_missiles := enemy_missiles s @ [new_missile cfg x0 x1],
           nb_missiles_launched := nb_missiles_launched s + 1,
           rng_python := g2\<rparr>)"

definition reset :: "(int \<Rightarrow> rng) \<Rightarrow> rng \<Rightarrow> int option \<Rightarrow> 'a curriculum_scheme \<Rightarrow> batch" where
  "reset mt entropy seed s =
     \<lparr>start_pos_range_cur = start_pos_range_cur s,
      end_pos_range_cur = end_pos_range_cur s,
      start_pos_range = start_pos_range s,
      end_pos_range = end_pos_range s,
      enemy_missiles = [],
      nb_missiles_launched = 0,
      rng_python = Random mt entropy seed\<rparr>"

text \<open>The three phases of \<^verbatim>\<open>step\<close>. The array operations act on every row alike.\<close>

definition move_missile :: "missile \<Rightarrow> missile" where
  "move_missile m =
     (let dx = np_abs (np_subtract (fin_x m) (cur_x m));
          dy = np_abs (np_subtract (fin_y m) (cur_y m));
          movement_x = np_minimum (np_abs (vel_x m)) dx;
          movement_y = np_minimum (np_abs (vel_y m)) dy;
          movement_x = np_multiply movement_x (np_sign (vel_x m));
          movement_y = np_multiply movement_y (np_sign (vel_y m))
      in m\<lparr>cur_x := np_add (cur_x m) movement_x,
           cur_y := np_add (cur_y m) movement_y\<rparr>)"

definition hit_ground :: "missile \<Rightarrow> bool" where
  "hit_ground m = (np_equal (cur_x m) (fin_x m) \<and> np_equal (cur_y m) (fin_y m))"

definition move_phase :: "batch \<Rightarrow> batch" where
  "move_phase s = s\<lparr>enemy_missiles := map move_missile (enemy_missiles s)\<rparr>"

definition launch_phase :: "config \<Rightarrow> batch \<Rightarrow> batch" where
  "launch_phase cfg s =
     (if nb_missiles_launched s < ENEMY_MISSILES_NUMBER cfg
      then (let (u, g) = rng_random (rng_python s);
                s' = s\<lparr>rng_python := g\<rparr>
            in if u \<le> ENEMY_MISSILES_PROBA_IN cfg then launch_missile cfg s' else s')
      else s)"

definition remove_phase :: "batch \<Rightarrow> batch" where
  "remove_phase s =
     s\<lparr>enemy_missiles := filter (\<lambda>m. \<not> hit_ground m) (enemy_missiles s)\<rparr>"

text \<open>\<^verbatim>\<open>step\<close> returns \<^verbatim>\<open>(None, None, done, None)\<close>; the model returns
  \<open>done\<close> and the object.\<close>

definition step :: "config \<Rightarrow> int \<Rightarrow> batch \<Rightarrow> bool \<times> batch" where
  "step cfg action s =
     (let s' = remove_phase (launch_phase cfg (move_phase s));
          done = (length (enemy_missiles s') = 0 \<and>
                  nb_missiles_launched s' = ENEMY_MISSILES_NUMBER cfg)
      in (done, s'))"

subsection \<open>Runs of the object\<close>

text \<open>
  An episode: the states an object passes through from a state \<open>s\<close> by any calls of
  \<^verbatim>\<open>step\<close>, \<^verbatim>\<open>advance_curriculum\<close> and the two setters (a setter that raises
  leaves the object as it was), with no \<^verbatim>\<open>reset\<close> in between.
\<close>

inductive episode :: "config \<Rightarrow> batch \<Rightarrow> batch \<Rightarrow> bool" for cfg :: config and s :: batch where
  episode_start: "episode cfg s s"
| episode_step: "episode cfg s t \<Longrightarrow> episode cfg s (snd (step cfg a t))"
| episode_advance: "episode cfg s t \<Longrightarrow> episode cfg s (advance_curriculum t)"
| episode_set_start: "episode cfg s t \<Longrightarrow> episode cfg s (snd (set_start_pos_range l r t))"
| episode_set_end: "episode cfg s t \<Longrightarrow> episode cfg s (snd (set_end_pos_range l r t))"

text \<open>
  The reachable states: a first \<^verbatim>\<open>reset\<close> of an object that has its four curriculum
  attributes (whatever their values), then episodes and further resets.
\<close>

inductive reachable :: "config \<Rightarrow> (int \<Rightarrow> rng) \<Rightarrow> batch \<Rightarrow> bool"
  for cfg :: config and mt :: "int \<Rightarrow> rng" where
  reachable_first_reset: "reachable cfg mt (reset mt e seed (c :: curriculum))"
| reachable_reset: "reachable cfg mt s \<Longrightarrow> reachable cfg mt (reset mt e seed s)"
| reachable_episode: "reachable cfg mt s \<Longrightarrow> episode cfg s t \<Longrightarrow> reachable cfg mt t"

text \<open>The two abscissae that \<^verbatim>\<open>_launch_missile\<close> draws in a state.\<close>

definition drawn_x0 :: "config \<Rightarrow> batch \<Rightarrow> npfloat" where
  "drawn_x0 cfg s =
     fst (rng_uniform (scaled (fst (start_pos_range s)) cfg)
            (scaled (snd (start_pos_range s)) cfg) (rng_python s))"

definition drawn_x1 :: "config \<Rightarrow> batch \<Rightarrow> npfloat" where
  "drawn_x1 cfg s =
     fst (rng_uniform (scaled (fst (end_pos_range s)) cfg)
            (scaled (snd (end_pos_range s)) cfg) (snd (rng_random (rng_python s))))"

text \<open>
  The launch that a call of \<^verbatim>\<open>step\<close> in state \<open>s\<close> makes, if it makes one: the
  start and the target of the row appended, as \<open>(x0, y0, x1, y1)\<close>.
\<close>

definition launched_by_step ::
  "config \<Rightarrow> batch \<Rightarrow> (npfloat \<times> npfloat \<times> npfloat \<times> npfloat) option" where
  "launched_by_step cfg s =
     (let s1 = move_phase s; s2 = launch_phase cfg s1
      in if nb_missiles_launched s2 = nb_missiles_launched s1 then None
         else (let m = last (enemy_missiles s2)
               in Some (init_x m, init_y m, fin_x m, fin_y m)))"

text \<open>Per tick of a run: the launch made, if any, and \<open>done\<close>.\<close>

fun events ::
  "config \<Rightarrow> int list \<Rightarrow> batch \<Rightarrow>
     ((npfloat \<times> npfloat \<times> npfloat \<times> npfloat) option \<times> bool) list" where
  "events cfg [] s = []"
| "events cfg (a # as) s =
     (launched_by_step cfg s, fst (step cfg a s)) # events cfg as (snd (step cfg a s))"

text \<open>Two objects that agree on all that \<^verbatim>\<open>step\<close> reads: every attribute but the
  two curriculum queues.\<close>

definition same_episode_state :: "batch \<Rightarrow> batch \<Rightarrow> bool" where
  "same_episode_state s t =
     (start_pos_range s = start_pos_range t \<and> end_pos_range s = end_pos_range t \<and>
      enemy_missiles s = enemy_missiles t \<and>
      nb_missiles_launched s = nb_missiles_launched t \<and> rng_python s = rng_python t)"

text \<open>What a sequence of \<^verbatim>\<open>step\<close> calls returns, one action each, in order:
  \<open>done\<close> and the object.\<close>

fun trajectory :: "config \<Rightarrow> int list \<Rightarrow> batch \<Rightarrow> (bool \<times> batch) list" where
  "trajectory cfg [] s = []"
| "trajectory cfg (a # as) s = step cfg a s # trajectory cfg as (snd (step cfg a s))"

text \<open>What a caller sees of a tick: \<open>done\<close> and the active rows.\<close>

definition observed :: "(bool \<times> batch) list \<Rightarrow> (bool \<times> missile list) list" where
  "observed ts = map (\<lambda>(d, t). (d, enemy_missiles t)) ts"

text \<open>The first \<open>n\<close> entries of the sequence \<open>xs\<close> followed by \<open>v\<close> for ever.\<close>

definition padded :: "'a list \<Rightarrow> 'a \<Rightarrow> nat \<Rightarrow> 'a list" where
  "padded xs v n = take n (xs @ replicate n v)"

text \<open>The \<open>n\<close>-th range a queue yields: its entries in order, then the full range.\<close>

definition queue_entry :: "pos_range list \<Rightarrow> nat \<Rightarrow> pos_range" where
  "queue_entry q n = (if n < length q then q ! n else full_range)"

subsection \<open>Trajectories\<close>

text \<open>A cell \<open>x\<close> lies between the cells \<open>a\<close> and \<open>b\<close>, in either order, ends
  included.\<close>

definition lies_between :: "npfloat \<Rightarrow> npfloat \<Rightarrow> npfloat \<Rightarrow> bool" where
  "lies_between a b x =
     (np_less_equal a x \<and> np_less_equal x b \<or> np_less_equal b x \<and> np_less_equal x a)"

text \<open>On each axis the current position lies between the start and the target.\<close>

definition no_overshoot :: "missile \<Rightarrow> bool" where
  "no_overshoot m =
     (lies_between (init_x m) (fin_x m) (cur_x m) \<and> lies_between (init_y m) (fin_y m) (cur_y m))"

text \<open>The distance from start to target of a launch, and the spec's number of ticks of
  flight: that distance over the speed, rounded up.\<close>

definition launch_distance :: "config \<Rightarrow> real \<Rightarrow> real \<Rightarrow> real" where
  "launch_distance cfg x0 x1 = sqrt ((x1 - x0)\<^sup>2 + (0 - EPISODE_HEIGHT cfg)\<^sup>2)"

definition flight_ticks :: "config \<Rightarrow> real \<Rightarrow> real \<Rightarrow> nat" where
  "flight_ticks cfg x0 x1 = nat \<lceil>launch_distance cfg x0 x1 / ENEMY_MISSILES_SPEED cfg\<rceil>"

subsection \<open>A concrete scenario\<close>

text \<open>
  One missile, launched with probability 1, speed 2, height 10, and both active ranges
  the single point 0 (so that the launch and target abscissae are equal).
\<close>

definition scenario_config :: config where
  "scenario_config =
     \<lparr>EPISODE_WIDTH = 20, EPISODE_HEIGHT = 10, ENEMY_MISSILES_NUMBER = 1,
      ENEMY_MISSILES_PROBA_IN = 1, ENEMY_MISSILES_SPEED = 2,
      START_POS_RANGE_CUR = Some [(0, 0)], END_POS_RANGE_CUR = Some [(0, 0)]\<rparr>"

definition scenario_object :: curriculum where
  "scenario_object =
     \<lparr>start_pos_range_cur = [], end_pos_range_cur = [],
      start_pos_range = (0, 0), end_pos_range = (0, 0)\<rparr>"

text \<open>A missile that falls vertically from height 10 along \<open>x = X\<close> at speed 2, at
  ordinate \<open>y\<close>.\<close>

definition falling :: "real \<Rightarrow> real \<Rightarrow> missile" where
  "falling X y =
     \<lparr>init_x = Fin X, init_y = Fin 10, cur_x = Fin X, cur_y = Fin y,
      fin_x = Fin X, fin_y = Fin 0, vel_x = Fin 0, vel_y = Fin (- 2)\<rparr>"

definition half_rng :: rng where
  "half_rng = (\<lambda>n. 1 / 2)"

definition scenario_start :: batch where
  "scenario_start = reset (\<lambda>seed. half_rng) half_rng (Some 42) scenario_object"

text \<open>The scenario after five ticks: the missile, launched in the first, is at height 2.\<close>

definition scenario_tick5 :: batch where
  "scenario_tick5 = scenario_start\<lparr>enemy_missiles := [falling 0 2], nb_missiles_launched := 1\<rparr>"

text \<open>The scenario on flat ground: the episode height is 0, so start and target coincide.\<close>

definition degenerate_config :: config where
  "degenerate_config = scenario_config\<lparr>EPISODE_HEIGHT := 0\<rparr>"

text \<open>The scenario at the height \<open>1/2^600\<close>, a binary64 number whose square is
  less than every positive binary64 number.\<close>

definition underflow_config :: config where
  "underflow_config = scenario_config\<lparr>EPISODE_HEIGHT := 1 / 2 ^ 600\<rparr>"

text \<open>
  A launch from \<open>x = -(4 + 1/2^23)\<close> to \<open>x = -(1 + 1/2^23)\<close> at height 4: the
  distance is 5 and, at speed 5, the velocity is \<open>(3, -4)\<close>, also as the binary64
  arithmetic of the launch computes it. Width 16 and both ranges single points make the
  two abscissae drawn these, whatever the generator returns; all these numbers are
  binary64 numbers.
\<close>

definition overshoot_config :: config where
  "overshoot_config =
     \<lparr>EPISODE_WIDTH = 16, EPISODE_HEIGHT = 4, ENEMY_MISSILES_NUMBER = 1,
      ENEMY_MISSILES_PROBA_IN = 1, ENEMY_MISSILES_SPEED = 5,
      START_POS_RANGE_CUR = Some [(- (33554433 / 134217728), - (33554433 / 134217728))],
      END_POS_RANGE_CUR = Some [(- (8388609 / 134217728), - (8388609 / 134217728))]\<rparr>"

definition overshoot_object :: curriculum where
  "overshoot_object =
     \<lparr>start_pos_range_cur = [], end_pos_range_cur = [],
      start_pos_range = (- (33554433 / 134217728), - (33554433 / 134217728)),
      end_pos_range = (- (8388609 / 134217728), - (8388609 / 134217728))\<rparr>"

definition overshoot_start :: batch where
  "overshoot_start = reset (\<lambda>seed. half_rng) half_rng (Some 42) overshoot_object"

text \<open>The missile of this launch when its current position is \<open>(x, y)\<close>.\<close>

definition slanted :: "real \<Rightarrow> real \<Rightarrow> missile" where
  "slanted x y =
     \<lparr>init_x = Fin (- 4), init_y = Fin 4, cur_x = Fin x, cur_y = Fin y,
      fin_x = Fin (- (8388609 / 8388608)), fin_y = Fin 0, vel_x = Fin 3, vel_y = Fin (- 4)\<rparr>"

text \<open>
  A vertical fall from height 1 at the speed that the Python literal \<^verbatim>\<open>0.2\<close>
  denotes, the binary64 number \<open>3602879701896397 / 2^54\<close>.
\<close>

definition slow_config :: config where
  "slow_config =
     \<lparr>EPISODE_WIDTH = 16, EPISODE_HEIGHT = 1, ENEMY_MISSILES_NUMBER = 1,
      ENEMY_MISSILES_PROBA_IN = 1,
      ENEMY_MISSILES_SPEED = 3602879701896397 / 18014398509481984,
      START_POS_RANGE_CUR = Some [(0, 0)], END_POS_RANGE_CUR = Some [(0, 0)]\<rparr>"

definition slow_start :: batch where
  "slow_start = reset (\<lambda>seed. half_rng) half_rng (Some 42) scenario_object"

text \<open>The missile of this fall at height \<open>y\<close>; its speed in the array is the binary32
  number \<open>13421773 / 2^26\<close>.\<close>

definition slow_falling :: "real \<Rightarrow> missile" where
  "slow_falling y =
     \<lparr>init_x = Fin 0, init_y = Fin 1, cur_x = Fin 0, cur_y = Fin y,
      fin_x = Fin 0, fin_y = Fin 0, vel_x = Fin 0, vel_y = Fin (- (13421773 / 67108864))\<rparr>"

text \<open>A configuration with a curriculum of two start ranges.\<close>

definition curriculum_config :: config where
  "curriculum_config =
     \<lparr>EPISODE_WIDTH = 20, EPISODE_HEIGHT = 10, ENEMY_MISSILES_NUMBER = 3,
      ENEMY_MISSILES_PROBA_IN = 1 / 2, ENEMY_MISSILES_SPEED = 1,
      START_POS_RANGE_CUR = Some [(- (1 / 10), 1 / 10), (- (3 / 10), 3 / 10)],
      END_POS_RANGE_CUR = None\<rparr>"

definition curriculum_object :: curriculum where
  "curriculum_object =
     \<lparr>start_pos_range_cur = [(- (3 / 10), 3 / 10)], end_pos_range_cur = [],
      start_pos_range = (- (1 / 10), 1 / 10), end_pos_range = full_range\<rparr>"

section \<open>Properties\<close>

subsection \<open>Rounding to binary32\<close>

lemma float32_0 [simp]: "float32 0 = Fin 0"
  by (simp add: float32_def round_binary_def)

lemma binade_eq:
  fixes a :: real
  assumes "2 powi e \<le> a" "a < 2 powi (e + 1)"
  shows "\<lfloor>log 2 a\<rfloor> = e"
proof -
  have "(0::real) < 2 powi e"
    by simp
  with assms(1) have p: "0 < a"
    by linarith
  have c: "(2::real) powr real_of_int k = 2 powi k" for k
    by (simp add: powr_real_of_int')
  have "(2::real) powr real_of_int e \<le> a \<and> a < 2 powr real_of_int (e + 1)"
    using assms by (simp only: c)
  then have "(2::real) powr real_of_int e \<le> a \<and> a < 2 powr (real_of_int e + 1)"
    by (simp only: of_int_add of_int_1)
  then show ?thesis
    using floor_log_eq_powr_iff [of a 2 e] p by simp
qed

text \<open>
  The value of \<open>float32 x\<close> for a normal \<open>x\<close>, from its exponent \<open>e\<close>: the two bounds
  and the rounded significand \<open>r\<close> are computations on rationals.
\<close>

lemma float32_eval:
  assumes "2 powi e \<le> \<bar>x\<bar>" "\<bar>x\<bar> < 2 powi (e + 1)" "- 126 \<le> e" "e \<le> 126"
    and "round_half_even (\<bar>x\<bar> / 2 powi (e - 23)) = r"
  shows "float32 x = Fin (sgn x * (of_int r * 2 powi (e - 23)))"
proof -
  have "(0::real) < 2 powi e"
    by simp
  with assms(1) have "0 < \<bar>x\<bar>"
    by linarith
  then have x: "x \<noteq> 0"
    by simp
  have b: "\<lfloor>log 2 \<bar>x\<bar>\<rfloor> = e"
    using assms(1,2) by (rule binade_eq)
  have m: "max e (- 126) = e"
    using assms(3) by simp
  have "\<bar>x\<bar> / 2 powi (e - 23) < 2 powi (e + 1) / 2 powi (e - 23)"
    using assms(2) by (simp add: divide_strict_right_mono)
  also have "\<dots> = 2 powi ((e + 1) - (e - 23))"
    by (rule power_int_diff [symmetric]) simp
  also have "\<dots> = 2 ^ 24"
    by simp
  finally have u: "\<bar>x\<bar> / 2 powi (e - 23) < 2 ^ 24" .
  have "r \<le> \<lfloor>\<bar>x\<bar> / 2 powi (e - 23)\<rfloor> + 1"
    using assms(5) by (auto simp add: round_half_even_def split: if_splits)
  moreover have "\<lfloor>\<bar>x\<bar> / 2 powi (e - 23)\<rfloor> < 2 ^ 24"
    using u by (simp add: floor_less_iff)
  ultimately have r: "r \<le> 2 ^ 24" by linarith
  have "real_of_int r \<le> real_of_int (2 ^ 24)"
    using r by (simp only: of_int_le_iff)
  then have "real_of_int r \<le> 2 ^ 24"
    by simp
  then have "of_int r * 2 powi (e - 23) \<le> (2 ^ 24 :: real) * 2 powi (e - 23)"
    by (intro mult_right_mono) simp_all
  also have "\<dots> = 2 powi 24 * 2 powi (e - 23)"
    by simp
  also have "\<dots> = 2 powi (24 + (e - 23))"
    by (rule power_int_add [symmetric]) simp
  also have "\<dots> = 2 powi (e + 1)"
    by (simp add: algebra_simps)
  also have "\<dots> < 2 powi 128"
    using assms(4) by (intro power_int_strict_increasing) simp_all
  finally have o: "\<not> (2::real) powi 128 \<le> real_of_int r * 2 powi (e - 23)"
    by (simp only: not_le)
  have s: "(127::int) + 1 = 128" "(24::int) - 1 = 23"
    by simp_all
  show ?thesis
    unfolding float32_def round_binary_def
    by (simp only: x b m assms(5) Let_def o s if_False)
qed

text \<open>A height that binary32 does not round to zero.\<close>

lemma round_half_even_ge_floor: "\<lfloor>n\<rfloor> \<le> round_half_even n"
  by (simp add: round_half_even_def)

lemma float32_not_zero:
  assumes "2 powi (- 149) \<le> x"
  shows "float32 x \<noteq> Fin 0"
proof -
  have "(0::real) < 2 powi (- 149)"
    by simp
  with assms have p: "0 < x"
    by linarith
  define e where "e = max \<lfloor>log 2 \<bar>x\<bar>\<rfloor> (- 126)"
  define q :: real where "q = 2 powi (e - 23)"
  have q: "0 < q"
    by (simp add: q_def)
  have "q \<le> x"
  proof (cases "- 126 \<le> \<lfloor>log 2 \<bar>x\<bar>\<rfloor>")
    case True
    then have e: "e = \<lfloor>log 2 x\<rfloor>"
      using p by (simp add: e_def)
    have "(2::real) powr real_of_int \<lfloor>log 2 x\<rfloor> \<le> x"
      using floor_log_eq_powr_iff [of x 2 "\<lfloor>log 2 x\<rfloor>"] p by simp
    then have "2 powi e \<le> x"
      by (simp add: e powr_real_of_int')
    moreover have "q \<le> 2 powi e"
      unfolding q_def by (intro power_int_increasing) simp_all
    ultimately show ?thesis by linarith
  next
    case False
    then have "e = - 126"
      by (simp add: e_def)
    then have "q = 2 powi (- 149)"
      by (simp add: q_def)
    with assms show ?thesis by simp
  qed
  then have "1 \<le> x / q"
    using q by (simp add: pos_le_divide_eq)
  then have "1 \<le> \<lfloor>x / q\<rfloor>"
    by (simp add: le_floor_iff)
  with round_half_even_ge_floor [of "x / q"] have "1 \<le> round_half_even (x / q)"
    by linarith
  then have "real_of_int 1 \<le> of_int (round_half_even (x / q))"
    by (simp only: of_int_le_iff)
  then have "(1::real) \<le> of_int (round_half_even (x / q))"
    by simp
  then have "0 < of_int (round_half_even (x / q)) * q"
    using q by (simp add: zero_less_mult_iff)
  moreover have "\<bar>x\<bar> = x"
    using p by simp
  ultimately have y: "of_int (round_half_even (\<bar>x\<bar> / q)) * q \<noteq> 0"
    by (metis less_irrefl)
  have "float32 x =
      (if 2 powi 128 \<le> of_int (round_half_even (\<bar>x\<bar> / q)) * q then PInf
       else Fin (of_int (round_half_even (\<bar>x\<bar> / q)) * q))"
    using p unfolding float32_def round_binary_def q_def e_def
    by (simp add: Let_def)
  with y show ?thesis by simp
qed

lemma round_half_even_of_int [simp]: "round_half_even (of_int k) = k"
  by (simp add: round_half_even_def)

lemma floor_log_le:
  fixes a :: real
  assumes "0 < a"
  shows "2 powi \<lfloor>log 2 a\<rfloor> \<le> a" and "a < 2 powi (\<lfloor>log 2 a\<rfloor> + 1)"
proof -
  have c: "(2::real) powr real_of_int k = 2 powi k" for k
    by (simp add: powr_real_of_int')
  from floor_log_eq_powr_iff [of a 2 "\<lfloor>log 2 a\<rfloor>"] assms
  have "(2::real) powr real_of_int \<lfloor>log 2 a\<rfloor> \<le> a \<and> a < 2 powr (real_of_int \<lfloor>log 2 a\<rfloor> + 1)"
    by simp
  then have "(2::real) powr real_of_int \<lfloor>log 2 a\<rfloor> \<le> a \<and> a < 2 powr real_of_int (\<lfloor>log 2 a\<rfloor> + 1)"
    by (simp only: of_int_add of_int_1)
  then show "2 powi \<lfloor>log 2 a\<rfloor> \<le> a" and "a < 2 powi (\<lfloor>log 2 a\<rfloor> + 1)"
    by (simp_all only: c)
qed

lemma floor_log_less:
  fixes a :: real
  assumes "0 < a" "a < 2 powi k"
  shows "\<lfloor>log 2 a\<rfloor> < k"
proof (rule ccontr)
  assume "\<not> \<lfloor>log 2 a\<rfloor> < k"
  then have "k \<le> \<lfloor>log 2 a\<rfloor>" by simp
  then have "(2::real) powi k \<le> 2 powi \<lfloor>log 2 a\<rfloor>"
    by (intro power_int_increasing) simp_all
  with floor_log_le(1) [OF assms(1)] assms(2) show False by linarith
qed

text \<open>The rounded significand of a nonzero \<open>x\<close> and the spacing used for it.\<close>

lemma float32_unfold:
  assumes "x \<noteq> 0"
  shows "float32 x =
    (if (2::real) powi 128 \<le> of_int (round_half_even (\<bar>x\<bar> / 2 powi (max \<lfloor>log 2 \<bar>x\<bar>\<rfloor> (- 126) - 23))) *
          2 powi (max \<lfloor>log 2 \<bar>x\<bar>\<rfloor> (- 126) - 23)
     then (if 0 < x then PInf else NInf)
     else Fin (sgn x * (of_int (round_half_even (\<bar>x\<bar> / 2 powi (max \<lfloor>log 2 \<bar>x\<bar>\<rfloor> (- 126) - 23))) *
          2 powi (max \<lfloor>log 2 \<bar>x\<bar>\<rfloor> (- 126) - 23))))"
proof -
  have s: "(127::int) + 1 = 128" "(24::int) - 1 = 23"
    by simp_all
  show ?thesis
    unfolding float32_def round_binary_def Let_def
    by (simp only: assms s if_False)
qed

lemma float32_representable:
  fixes s :: real
  assumes "0 \<le> r" "r \<le> 2 ^ 24" "- 126 \<le> e"
    and "real_of_int r * 2 powi (e - 23) < 2 powi 128"
    and "2 ^ 23 \<le> r \<or> e = - 126"
    and that: "s = 1 \<or> s = - 1"
  shows "float32 (s * (of_int r * 2 powi (e - 23))) = Fin (s * (of_int r * 2 powi (e - 23)))"
proof (cases "r = 0")
  case True
  then show ?thesis by simp
next
  case False
  with assms(1) have rp: "0 < r" by simp
  define q :: real where "q = 2 powi (e - 23)"
  define y where "y = s * (of_int r * q)"
  have q: "0 < q" by (simp add: q_def)
  have ay: "\<bar>y\<bar> = of_int r * q"
    using that rp q by (auto simp add: y_def abs_mult)
  have yp: "0 < \<bar>y\<bar>"
    using rp q by (simp add: ay)
  have y0: "y \<noteq> 0"
    using yp by auto
  have sy: "sgn y = s"
    using that rp q by (auto simp add: y_def sgn_mult)
  have q24: "2 ^ 24 * q = 2 powi (e + 1)"
  proof -
    have "(2::real) ^ 24 * q = 2 powi 24 * 2 powi (e - 23)"
      by (simp add: q_def)
    also have "\<dots> = 2 powi (24 + (e - 23))"
      by (rule power_int_add [symmetric]) simp
    also have "\<dots> = 2 powi (e + 1)"
      by (simp add: algebra_simps)
    finally show ?thesis .
  qed
  have q23: "2 ^ 23 * q = 2 powi e"
  proof -
    have "(2::real) ^ 23 * q = 2 powi 23 * 2 powi (e - 23)"
      by (simp add: q_def)
    also have "\<dots> = 2 powi (23 + (e - 23))"
      by (rule power_int_add [symmetric]) simp
    also have "\<dots> = 2 powi e"
      by simp
    finally show ?thesis .
  qed
  have rr: "real_of_int r \<le> 2 ^ 24"
  proof -
    have "real_of_int r \<le> real_of_int (2 ^ 24)"
      using assms(2) by (simp only: of_int_le_iff)
    then show ?thesis by simp
  qed
  text \<open>The exponent that rounding uses for \<open>y\<close>, and the significand it finds.\<close>
  have "\<exists>e'. max \<lfloor>log 2 \<bar>y\<bar>\<rfloor> (- 126) = e' \<and>
      of_int (round_half_even (\<bar>y\<bar> / 2 powi (e' - 23))) * 2 powi (e' - 23) = \<bar>y\<bar>"
  proof -
    consider (top) "r = 2 ^ 24" | (normal) "2 ^ 23 \<le> r" "r < 2 ^ 24" | (sub) "r < 2 ^ 23"
      using assms(2) by linarith
    then show ?thesis
    proof cases
      case top
      then have "real_of_int r = 2 ^ 24"
        by (metis of_int_numeral of_int_power)
      then have v: "\<bar>y\<bar> = 2 powi (e + 1)"
        by (simp only: ay q24)
      have "(2::real) powi (e + 1) < 2 powi (e + 1 + 1)"
        by (intro power_int_strict_increasing) simp_all
      then have "\<lfloor>log 2 \<bar>y\<bar>\<rfloor> = e + 1"
        by (intro binade_eq) (simp_all only: v order_refl)
      then have m: "max \<lfloor>log 2 \<bar>y\<bar>\<rfloor> (- 126) = e + 1"
        using assms(3) by simp
      have "\<bar>y\<bar> / 2 powi (e + 1 - 23) = 2 powi ((e + 1) - (e + 1 - 23))"
        unfolding v by (rule power_int_diff [symmetric]) simp
      also have "\<dots> = of_int (2 ^ 23)"
        by simp
      finally have d: "\<bar>y\<bar> / 2 powi (e + 1 - 23) = of_int (2 ^ 23)" .
      have "of_int (round_half_even (\<bar>y\<bar> / 2 powi (e + 1 - 23))) * 2 powi (e + 1 - 23) =
          (2::real) powi 23 * 2 powi (e + 1 - 23)"
        by (simp only: d round_half_even_of_int) simp
      also have "\<dots> = 2 powi (23 + (e + 1 - 23))"
        by (rule power_int_add [symmetric]) simp
      also have "23 + (e + 1 - 23) = e + 1"
        by simp
      finally have "of_int (round_half_even (\<bar>y\<bar> / 2 powi (e + 1 - 23))) * 2 powi (e + 1 - 23) = \<bar>y\<bar>"
        by (simp only: v)
      then show ?thesis using m by blast
    next
      case normal
      have "real_of_int (2 ^ 23) \<le> real_of_int r"
        using normal(1) by (simp only: of_int_le_iff)
      then have "2 ^ 23 * q \<le> of_int r * q"
        using q by (intro mult_right_mono) simp_all
      then have lo: "2 powi e \<le> \<bar>y\<bar>"
        by (simp only: ay q23)
      have "real_of_int r < real_of_int (2 ^ 24)"
        using normal(2) by (simp only: of_int_less_iff)
      then have "of_int r * q < 2 ^ 24 * q"
        using q by (intro mult_strict_right_mono) simp_all
      then have hi: "\<bar>y\<bar> < 2 powi (e + 1)"
        by (simp only: ay q24)
      have "\<lfloor>log 2 \<bar>y\<bar>\<rfloor> = e"
        using lo hi by (rule binade_eq)
      then have m: "max \<lfloor>log 2 \<bar>y\<bar>\<rfloor> (- 126) = e"
        using assms(3) by simp
      have "\<bar>y\<bar> / 2 powi (e - 23) = of_int r"
        using q by (simp add: ay q_def)
      then have "of_int (round_half_even (\<bar>y\<bar> / 2 powi (e - 23))) * 2 powi (e - 23) = \<bar>y\<bar>"
        by (simp only: round_half_even_of_int ay q_def)
      then show ?thesis using m by blast
    next
      case sub
      with assms(5) have e: "e = - 126" by linarith
      have "real_of_int r < real_of_int (2 ^ 23)"
        using sub by (simp only: of_int_less_iff)
      then have "of_int r * q < 2 ^ 23 * q"
        using q by (intro mult_strict_right_mono) simp_all
      then have "\<bar>y\<bar> < 2 powi (- 126)"
        by (simp only: ay q23 e)
      then have "\<lfloor>log 2 \<bar>y\<bar>\<rfloor> < - 126"
        using yp by (intro floor_log_less)
      then have m: "max \<lfloor>log 2 \<bar>y\<bar>\<rfloor> (- 126) = e"
        by (simp add: e)
      have "\<bar>y\<bar> / 2 powi (e - 23) = of_int r"
        using q by (simp add: ay q_def)
      then have "of_int (round_half_even (\<bar>y\<bar> / 2 powi (e - 23))) * 2 powi (e - 23) = \<bar>y\<bar>"
        by (simp only: round_half_even_of_int ay q_def)
      then show ?thesis using m by blast
    qed
  qed
  then obtain e' where m: "max \<lfloor>log 2 \<bar>y\<bar>\<rfloor> (- 126) = e'"
    and v: "of_int (round_half_even (\<bar>y\<bar> / 2 powi (e' - 23))) * 2 powi (e' - 23) = \<bar>y\<bar>"
    by blast
  have o: "\<not> 2 powi 128 \<le> \<bar>y\<bar>"
    using assms(4) by (simp add: ay q_def)
  have "float32 y = Fin (sgn y * \<bar>y\<bar>)"
    by (simp only: float32_unfold [OF y0] m v o if_False)
  also have "sgn y * \<bar>y\<bar> = y"
    by (simp add: sgn_mult_abs)
  finally show ?thesis
    by (simp only: y_def q_def)
qed

lemma round_half_even_le: "round_half_even n \<le> \<lfloor>n\<rfloor> + 1"
  by (simp add: round_half_even_def)

text \<open>What \<open>float32\<close> returns is a binary32 number: rounding it again changes nothing.\<close>

lemma float32_idem:
  assumes "float32 x = Fin y"
  shows "float32 y = Fin y"
proof (cases "x = 0")
  case True
  with assms show ?thesis by simp
next
  case False
  define e where "e = max \<lfloor>log 2 \<bar>x\<bar>\<rfloor> (- 126)"
  define q :: real where "q = 2 powi (e - 23)"
  define r where "r = round_half_even (\<bar>x\<bar> / q)"
  have q: "0 < q"
    by (simp add: q_def)
  have ax: "0 < \<bar>x\<bar>"
    using False by simp
  have u: "float32 x =
      (if 2 powi 128 \<le> of_int r * q then (if 0 < x then PInf else NInf)
       else Fin (sgn x * (of_int r * q)))"
    unfolding r_def q_def e_def by (rule float32_unfold [OF False])
  with assms have o: "real_of_int r * 2 powi (e - 23) < 2 powi 128"
    and y: "y = sgn x * (of_int r * 2 powi (e - 23))"
    by (auto simp add: q_def split: if_splits)
  have e: "- 126 \<le> e"
    by (simp add: e_def)
  have "0 \<le> \<bar>x\<bar> / q"
    using q by simp
  then have "0 \<le> \<lfloor>\<bar>x\<bar> / q\<rfloor>"
    by simp
  with round_half_even_ge_floor [of "\<bar>x\<bar> / q"] have r0: "0 \<le> r"
    unfolding r_def by linarith
  have q24: "2 powi (e + 1) / q = 2 ^ 24"
  proof -
    have "2 powi (e + 1) / q = 2 powi ((e + 1) - (e - 23))"
      unfolding q_def by (rule power_int_diff [symmetric]) simp
    also have "\<dots> = 2 ^ 24"
      by simp
    finally show ?thesis .
  qed
  have q23: "2 powi e / q = 2 ^ 23"
  proof -
    have "2 powi e / q = 2 powi (e - (e - 23))"
      unfolding q_def by (rule power_int_diff [symmetric]) simp
    also have "\<dots> = 2 ^ 23"
      by simp
    finally show ?thesis .
  qed
  have "\<bar>x\<bar> < 2 powi (\<lfloor>log 2 \<bar>x\<bar>\<rfloor> + 1)"
    by (rule floor_log_le(2) [OF ax])
  also have "\<dots> \<le> 2 powi (e + 1)"
    by (intro power_int_increasing) (simp_all add: e_def)
  finally have "\<bar>x\<bar> / q < 2 powi (e + 1) / q"
    using q by (simp add: divide_strict_right_mono)
  then have "\<bar>x\<bar> / q < 2 ^ 24"
    by (simp only: q24)
  then have "\<lfloor>\<bar>x\<bar> / q\<rfloor> < 2 ^ 24"
    by (simp add: floor_less_iff)
  with round_half_even_le [of "\<bar>x\<bar> / q"] have r24: "r \<le> 2 ^ 24"
    unfolding r_def by linarith
  have n: "2 ^ 23 \<le> r \<or> e = - 126"
  proof (cases "e = - 126")
    case True
    then show ?thesis ..
  next
    case False
    then have "e = \<lfloor>log 2 \<bar>x\<bar>\<rfloor>"
      by (simp add: e_def max_def split: if_splits)
    with floor_log_le(1) [OF ax] have "2 powi e \<le> \<bar>x\<bar>"
      by simp
    then have "2 powi e / q \<le> \<bar>x\<bar> / q"
      using q by (simp add: divide_right_mono)
    then have "2 ^ 23 \<le> \<bar>x\<bar> / q"
      by (simp only: q23)
    then have "2 ^ 23 \<le> \<lfloor>\<bar>x\<bar> / q\<rfloor>"
      by (simp add: le_floor_iff)
    with round_half_even_ge_floor [of "\<bar>x\<bar> / q"] have "2 ^ 23 \<le> r"
      unfolding r_def by linarith
    then show ?thesis ..
  qed
  have s: "sgn x = 1 \<or> sgn x = - 1"
    using False by (simp add: sgn_if)
  show ?thesis
    unfolding y by (rule float32_representable [OF r0 r24 e o n s])
qed

lemma float32_not_NaN [simp]: "float32 x \<noteq> NaN"
  by (simp add: float32_def round_binary_def Let_def)

text \<open>The small numbers that the examples need.\<close>

lemma float32_small [simp]:
  "float32 2 = Fin 2" "float32 (- 2) = Fin (- 2)"
  "float32 3 = Fin 3" "float32 (- 3) = Fin (- 3)"
  "float32 4 = Fin 4" "float32 (- 4) = Fin (- 4)"
  "float32 6 = Fin 6" "float32 (- 6) = Fin (- 6)"
  "float32 8 = Fin 8" "float32 (- 8) = Fin (- 8)"
  "float32 10 = Fin 10" "float32 (- 10) = Fin (- 10)"
  "float32 1 = Fin 1" "float32 (- 1) = Fin (- 1)"
  by (simp_all add: float32_eval [where e = 0] float32_eval [where e = 1]
      float32_eval [where e = 2] float32_eval [where e = 3] round_half_even_def)

subsection \<open>Rounding to binary64\<close>

lemma float64_0 [simp]: "float64 0 = Fin 0"
  by (simp add: float64_def round_binary_def)

lemma float64_not_NaN [simp]: "float64 x \<noteq> NaN"
  by (simp add: float64_def round_binary_def Let_def)

text \<open>The value of \<open>float64 x\<close> for a normal \<open>x\<close>, from its exponent \<open>e\<close>.\<close>

lemma float64_eval:
  assumes "2 powi e \<le> \<bar>x\<bar>" "\<bar>x\<bar> < 2 powi (e + 1)" "- 1022 \<le> e" "e \<le> 1022"
    and "round_half_even (\<bar>x\<bar> / 2 powi (e - 52)) = r"
  shows "float64 x = Fin (sgn x * (of_int r * 2 powi (e - 52)))"
proof -
  have "(0::real) < 2 powi e"
    by simp
  with assms(1) have "0 < \<bar>x\<bar>"
    by linarith
  then have x: "x \<noteq> 0"
    by simp
  have b: "\<lfloor>log 2 \<bar>x\<bar>\<rfloor> = e"
    using assms(1,2) by (rule binade_eq)
  have m: "max e (- 1022) = e"
    using assms(3) by simp
  have "\<bar>x\<bar> / 2 powi (e - 52) < 2 powi (e + 1) / 2 powi (e - 52)"
    using assms(2) by (simp add: divide_strict_right_mono)
  also have "\<dots> = 2 powi ((e + 1) - (e - 52))"
    by (rule power_int_diff [symmetric]) simp
  also have "\<dots> = 2 ^ 53"
    by simp
  finally have u: "\<bar>x\<bar> / 2 powi (e - 52) < 2 ^ 53" .
  have "r \<le> \<lfloor>\<bar>x\<bar> / 2 powi (e - 52)\<rfloor> + 1"
    using assms(5) round_half_even_le [of "\<bar>x\<bar> / 2 powi (e - 52)"] by simp
  moreover have "\<lfloor>\<bar>x\<bar> / 2 powi (e - 52)\<rfloor> < 2 ^ 53"
    using u by (simp add: floor_less_iff)
  ultimately have r: "r \<le> 2 ^ 53" by linarith
  have "real_of_int r \<le> real_of_int (2 ^ 53)"
    using r by (simp only: of_int_le_iff)
  then have "real_of_int r \<le> 2 ^ 53"
    by simp
  then have "of_int r * 2 powi (e - 52) \<le> (2 ^ 53 :: real) * 2 powi (e - 52)"
    by (intro mult_right_mono) simp_all
  also have "\<dots> = 2 powi 53 * 2 powi (e - 52)"
    by simp
  also have "\<dots> = 2 powi (53 + (e - 52))"
    by (rule power_int_add [symmetric]) simp
  also have "\<dots> = 2 powi (e + 1)"
    by (simp add: algebra_simps)
  also have "\<dots> < 2 powi 1024"
    using assms(4) by (intro power_int_strict_increasing) simp_all
  finally have o: "\<not> (2::real) powi 1024 \<le> real_of_int r * 2 powi (e - 52)"
    by (simp only: not_le)
  have s: "(1023::int) + 1 = 1024" "(53::int) - 1 = 52"
    by simp_all
  show ?thesis
    unfolding float64_def round_binary_def
    by (simp only: x b m assms(5) Let_def o s if_False)
qed

text \<open>A nonzero number below the normal range is rounded to a multiple of the least
  positive number of the format, which can be zero.\<close>

lemma round_binary_subnormal:
  assumes "x \<noteq> 0" "\<bar>x\<bar> < 2 powi emin" "emin \<le> emax" "1 \<le> p"
    and "round_half_even (\<bar>x\<bar> / 2 powi (emin - (p - 1))) = r"
  shows "round_binary p emin emax x = Fin (sgn x * (of_int r * 2 powi (emin - (p - 1))))"
proof -
  have ax: "0 < \<bar>x\<bar>"
    using assms(1) by simp
  have "\<lfloor>log 2 \<bar>x\<bar>\<rfloor> < emin"
    using ax assms(2) by (rule floor_log_less)
  then have m: "max \<lfloor>log 2 \<bar>x\<bar>\<rfloor> emin = emin"
    by simp
  define q :: real where "q = 2 powi (emin - (p - 1))"
  have q: "0 < q"
    by (simp add: q_def)
  have "2 powi emin / q = 2 powi (emin - (emin - (p - 1)))"
    unfolding q_def by (rule power_int_diff [symmetric]) simp
  then have d: "2 powi emin / q = 2 powi (p - 1)"
    by simp
  have "\<bar>x\<bar> / q < 2 powi emin / q"
    using assms(2) q by (simp add: divide_strict_right_mono)
  then have "\<bar>x\<bar> / q < 2 powi (p - 1)"
    by (simp only: d)
  moreover have "(2::real) powi (p - 1) = of_int (2 ^ nat (p - 1))"
    using assms(4) by (simp add: power_int_def)
  ultimately have "\<bar>x\<bar> / q < of_int (2 ^ nat (p - 1))"
    by simp
  then have "\<lfloor>\<bar>x\<bar> / q\<rfloor> < 2 ^ nat (p - 1)"
    by (simp only: floor_less_iff)
  with round_half_even_le [of "\<bar>x\<bar> / q"] assms(5) have "r \<le> 2 ^ nat (p - 1)"
    unfolding q_def by linarith
  then have "real_of_int r \<le> real_of_int (2 ^ nat (p - 1))"
    by (simp only: of_int_le_iff)
  also have "\<dots> = 2 powi (p - 1)"
    using assms(4) by (simp add: power_int_def)
  finally have "of_int r * q \<le> 2 powi (p - 1) * q"
    using q by (intro mult_right_mono) simp_all
  also have "\<dots> = 2 powi ((p - 1) + (emin - (p - 1)))"
    unfolding q_def by (rule power_int_add [symmetric]) simp
  also have "\<dots> = 2 powi emin"
    by simp
  also have "\<dots> < 2 powi (emax + 1)"
    using assms(3) by (intro power_int_strict_increasing) simp_all
  finally have o: "\<not> 2 powi (emax + 1) \<le> real_of_int r * 2 powi (emin - (p - 1))"
    by (simp only: not_le q_def)
  show ?thesis
    unfolding round_binary_def
    by (simp only: assms(1) m assms(5) Let_def o if_False)
qed

lemma float64_subnormal:
  assumes "x \<noteq> 0" "\<bar>x\<bar> < 2 powi (- 1022)"
    and "round_half_even (\<bar>x\<bar> / 2 powi (- 1074)) = r"
  shows "float64 x = Fin (sgn x * (of_int r * 2 powi (- 1074)))"
  using round_binary_subnormal [of x "- 1022" 1023 53 r] assms
  by (simp add: float64_def)

lemma float32_subnormal:
  assumes "x \<noteq> 0" "\<bar>x\<bar> < 2 powi (- 126)"
    and "round_half_even (\<bar>x\<bar> / 2 powi (- 149)) = r"
  shows "float32 x = Fin (sgn x * (of_int r * 2 powi (- 149)))"
  using round_binary_subnormal [of x "- 126" 127 24 r] assms
  by (simp add: float32_def)

text \<open>Rounding commutes with negation.\<close>

lemma float64_minus: "float64 (- x) = np_negative (float64 x)"
  by (simp add: float64_def round_binary_def Let_def sgn_minus)

text \<open>Rounding a number that is not negative gives none, and at least the power of two
  (down to the least positive number of the format) that the number is at least.\<close>

lemma float64_nonneg:
  assumes "0 \<le> x"
  shows "float64 x = PInf \<or> (\<exists>y. float64 x = Fin y \<and> 0 \<le> y)"
proof (cases "x = 0")
  case True
  then show ?thesis by simp
next
  case False
  with assms have p: "0 < x" by simp
  have "0 \<le> \<lfloor>\<bar>x\<bar> / 2 powi (max \<lfloor>log 2 \<bar>x\<bar>\<rfloor> (- 1022) - 52)\<rfloor>"
    by simp
  with round_half_even_ge_floor [of "\<bar>x\<bar> / 2 powi (max \<lfloor>log 2 \<bar>x\<bar>\<rfloor> (- 1022) - 52)"]
  have "0 \<le> round_half_even (\<bar>x\<bar> / 2 powi (max \<lfloor>log 2 \<bar>x\<bar>\<rfloor> (- 1022) - 52))"
    by linarith
  then show ?thesis
    using p by (simp add: float64_def round_binary_def Let_def)
qed

lemma float64_ge_power:
  assumes "- 1074 \<le> k" "2 powi k \<le> x"
  shows "float64 x = PInf \<or> (\<exists>y. float64 x = Fin y \<and> 2 powi k \<le> y)"
proof -
  have "(0::real) < 2 powi k"
    by simp
  with assms(2) have p: "0 < x"
    by linarith
  define e where "e = max \<lfloor>log 2 \<bar>x\<bar>\<rfloor> (- 1022)"
  define q :: real where "q = 2 powi (e - 52)"
  define r where "r = round_half_even (\<bar>x\<bar> / q)"
  have q: "0 < q"
    by (simp add: q_def)
  have ax: "\<bar>x\<bar> = x"
    using p by simp
  text \<open>Some power of two between \<open>2 powi k\<close> and \<open>x\<close> is a multiple of the spacing.\<close>
  have "\<exists>j. k \<le> j \<and> e - 52 \<le> j \<and> 2 powi j \<le> x"
  proof (cases "- 1022 \<le> \<lfloor>log 2 x\<rfloor>")
    case True
    then have e: "e = \<lfloor>log 2 x\<rfloor>"
      by (simp add: e_def ax)
    have "2 powi e \<le> x"
      unfolding e by (rule floor_log_le(1) [OF p])
    moreover have "k \<le> e"
    proof (rule ccontr)
      assume "\<not> k \<le> e"
      then have "e + 1 \<le> k" by simp
      then have "(2::real) powi (e + 1) \<le> 2 powi k"
        by (intro power_int_increasing) simp_all
      moreover have "x < 2 powi (e + 1)"
        unfolding e by (rule floor_log_le(2) [OF p])
      ultimately show False using assms(2) by linarith
    qed
    ultimately show ?thesis by (intro exI [of _ e]) simp
  next
    case False
    then have "e = - 1022"
      by (simp add: e_def ax)
    then show ?thesis
      using assms by (intro exI [of _ k]) simp
  qed
  then obtain j where j: "k \<le> j" "e - 52 \<le> j" "2 powi j \<le> x"
    by blast
  have d: "2 powi j / q = of_int (2 ^ nat (j - (e - 52)))"
  proof -
    have "2 powi j / q = 2 powi (j - (e - 52))"
      unfolding q_def by (rule power_int_diff [symmetric]) simp
    also have "\<dots> = of_int (2 ^ nat (j - (e - 52)))"
      using j(2) by (simp add: power_int_def)
    finally show ?thesis .
  qed
  have "2 powi j / q \<le> x / q"
    using j(3) q by (simp add: divide_right_mono)
  then have "of_int (2 ^ nat (j - (e - 52))) \<le> x / q"
    by (simp only: d)
  then have "2 ^ nat (j - (e - 52)) \<le> \<lfloor>x / q\<rfloor>"
    by (simp only: le_floor_iff)
  with round_half_even_ge_floor [of "x / q"] have "2 ^ nat (j - (e - 52)) \<le> r"
    unfolding r_def ax by linarith
  then have "real_of_int (2 ^ nat (j - (e - 52))) \<le> of_int r"
    by (simp only: of_int_le_iff)
  then have "2 powi j / q \<le> of_int r"
    by (simp only: d)
  then have "2 powi j \<le> of_int r * q"
    using q by (simp add: pos_divide_le_eq)
  moreover have "(2::real) powi k \<le> 2 powi j"
    using j(1) by (intro power_int_increasing) simp_all
  ultimately have y: "2 powi k \<le> of_int r * q"
    by linarith
  have "float64 x = (if 2 powi 1024 \<le> of_int r * q then PInf else Fin (of_int r * q))"
    using p unfolding float64_def round_binary_def r_def q_def e_def
    by (simp add: Let_def)
  with y show ?thesis by simp
qed

subsection \<open>Fields that the curriculum methods leave alone\<close>

lemma set_start_fields [simp]:
  "enemy_missiles (snd (set_start_pos_range l r s)) = enemy_missiles s"
  "nb_missiles_launched (snd (set_start_pos_range l r s)) = nb_missiles_launched s"
  "rng_python (snd (set_start_pos_range l r s)) = rng_python s"
  by (simp_all add: set_start_pos_range_def)

lemma set_end_fields [simp]:
  "enemy_missiles (snd (set_end_pos_range l r s)) = enemy_missiles s"
  "nb_missiles_launched (snd (set_end_pos_range l r s)) = nb_missiles_launched s"
  "rng_python (snd (set_end_pos_range l r s)) = rng_python s"
  by (simp_all add: set_end_pos_range_def)

lemma advance_fields [simp]:
  "enemy_missiles (advance_curriculum s) = enemy_missiles s"
  "nb_missiles_launched (advance_curriculum s) = nb_missiles_launched s"
  "rng_python (advance_curriculum s) = rng_python s"
  by (simp_all add: advance_curriculum_def Let_def)

subsection \<open>The phases of a step\<close>

lemma launch_missile_nb:
  "nb_missiles_launched (launch_missile cfg s) = nb_missiles_launched s + 1"
  by (simp add: launch_missile_def Let_def split: prod.splits)

lemma launch_missile_eq:
  "launch_missile cfg s =
     s\<lparr>enemy_missiles := enemy_missiles s @ [new_missile cfg (drawn_x0 cfg s) (drawn_x1 cfg s)],
       nb_missiles_launched := nb_missiles_launched s + 1,
       rng_python := (\<lambda>n. rng_python s (Suc (Suc n)))\<rparr>"
  by (simp add: launch_missile_def drawn_x0_def drawn_x1_def rng_uniform_def rng_random_def
      Let_def split: prod.splits)

lemma launch_phase_eq:
  "launch_phase cfg s =
     (if nb_missiles_launched s < ENEMY_MISSILES_NUMBER cfg
      then if rng_python s 0 \<le> ENEMY_MISSILES_PROBA_IN cfg
           then launch_missile cfg (s\<lparr>rng_python := (\<lambda>n. rng_python s (Suc n))\<rparr>)
           else s\<lparr>rng_python := (\<lambda>n. rng_python s (Suc n))\<rparr>
      else s)"
  by (simp add: launch_phase_def rng_random_def Let_def)

lemma launch_phase_nb:
  "nb_missiles_launched (launch_phase cfg s) = nb_missiles_launched s \<or>
   nb_missiles_launched s < ENEMY_MISSILES_NUMBER cfg \<and>
   nb_missiles_launched (launch_phase cfg s) = nb_missiles_launched s + 1"
  by (simp add: launch_phase_eq launch_missile_nb)

lemma launch_phase_missiles:
  "enemy_missiles (launch_phase cfg s) = enemy_missiles s \<or>
   (\<exists>x0 x1. enemy_missiles (launch_phase cfg s) = enemy_missiles s @ [new_missile cfg x0 x1])"
  by (simp add: launch_phase_eq launch_missile_eq) blast

lemma move_phase_nb [simp]: "nb_missiles_launched (move_phase s) = nb_missiles_launched s"
  by (simp add: move_phase_def)

lemma move_phase_missiles [simp]:
  "enemy_missiles (move_phase s) = map move_missile (enemy_missiles s)"
  by (simp add: move_phase_def)

lemma step_nb:
  "nb_missiles_launched (snd (step cfg a s)) = nb_missiles_launched (launch_phase cfg (move_phase s))"
  by (simp add: step_def Let_def remove_phase_def)

lemma step_missiles:
  "enemy_missiles (snd (step cfg a s)) =
     filter (\<lambda>m. \<not> hit_ground m) (enemy_missiles (launch_phase cfg (move_phase s)))"
  by (simp add: step_def Let_def remove_phase_def)

text \<open>Every missile that was active is moved once, and kept unless it is at its target;
  at most one new row follows.\<close>

lemma step_missiles_cases:
  "enemy_missiles (snd (step cfg a s)) =
     filter (\<lambda>m. \<not> hit_ground m) (map move_missile (enemy_missiles s)) \<or>
   (\<exists>x0 x1. enemy_missiles (snd (step cfg a s)) =
     filter (\<lambda>m. \<not> hit_ground m) (map move_missile (enemy_missiles s) @ [new_missile cfg x0 x1]))"
proof -
  from launch_phase_missiles [of cfg "move_phase s"]
  consider "enemy_missiles (launch_phase cfg (move_phase s)) = map move_missile (enemy_missiles s)"
    | x0 x1 where "enemy_missiles (launch_phase cfg (move_phase s)) =
        map move_missile (enemy_missiles s) @ [new_missile cfg x0 x1]"
    by auto
  then show ?thesis
  proof cases
    case 1
    then show ?thesis by (simp add: step_missiles)
  next
    case 2
    then have "enemy_missiles (snd (step cfg a s)) =
      filter (\<lambda>m. \<not> hit_ground m) (map move_missile (enemy_missiles s) @ [new_missile cfg x0 x1])"
      by (simp only: step_missiles)
    then show ?thesis by blast
  qed
qed

lemma step_nb_cases:
  "nb_missiles_launched (snd (step cfg a s)) = nb_missiles_launched s \<or>
   nb_missiles_launched s < ENEMY_MISSILES_NUMBER cfg \<and>
   nb_missiles_launched (snd (step cfg a s)) = nb_missiles_launched s + 1"
  using launch_phase_nb [of cfg "move_phase s"] by (simp add: step_nb)

lemma step_done_iff:
  "fst (step cfg a s) =
     (enemy_missiles (snd (step cfg a s)) = [] \<and>
      nb_missiles_launched (snd (step cfg a s)) = ENEMY_MISSILES_NUMBER cfg)"
  by (simp add: step_def Let_def)

lemma step_finished:
  assumes "enemy_missiles s = []" "nb_missiles_launched s = ENEMY_MISSILES_NUMBER cfg"
  shows "step cfg a s = (True, s)"
  using assms by (simp add: step_def Let_def move_phase_def launch_phase_def remove_phase_def)

lemma np_equal_Fin [simp]: "np_equal (Fin a) b = (b = Fin a)"
  by (cases b) auto

lemma np_equal_Fin_right [simp]: "np_equal b (Fin a) = (b = Fin a)"
  by (cases b) auto

lemma np_equal_same: "np_equal a a = (a \<noteq> NaN)"
  by (cases a) auto

subsection \<open>The scenario, evaluated\<close>

lemma sqrt_100 [simp]: "sqrt 100 = 10"
  using real_sqrt_abs [of 10] by simp

text \<open>The small numbers of the examples are binary64 numbers.\<close>

lemma float64_small [simp]:
  "float64 1 = Fin 1" "float64 (- 1) = Fin (- 1)"
  "float64 2 = Fin 2" "float64 (- 2) = Fin (- 2)"
  "float64 3 = Fin 3" "float64 (- 3) = Fin (- 3)"
  "float64 4 = Fin 4" "float64 (- 4) = Fin (- 4)"
  "float64 5 = Fin 5" "float64 (- 5) = Fin (- 5)"
  "float64 9 = Fin 9" "float64 10 = Fin 10" "float64 (- 10) = Fin (- 10)"
  "float64 16 = Fin 16" "float64 25 = Fin 25" "float64 100 = Fin 100"
  by (simp_all add: float64_eval [where e = 0] float64_eval [where e = 1]
      float64_eval [where e = 2] float64_eval [where e = 3] float64_eval [where e = 4]
      float64_eval [where e = 6] round_half_even_def)

lemma half_rng_tail [simp]: "(\<lambda>n. half_rng (Suc n)) = half_rng"
  by (simp add: half_rng_def)

lemma half_rng_tail2 [simp]: "(\<lambda>n. half_rng (Suc (Suc n))) = half_rng"
  by (simp add: half_rng_def)

lemma half_rng_0 [simp]: "half_rng 0 = 1 / 2"
  by (simp add: half_rng_def)

lemma init_scenario: "init scenario_config = Inr scenario_object"
  by (simp add: init_def scenario_config_def scenario_object_def configured_queue_def pop0_def)

subsection \<open>The vertical fall\<close>

lemma new_missile_falling:
  assumes "ENEMY_MISSILES_SPEED cfg = 2" "EPISODE_HEIGHT cfg = 10" "float32 X' = Fin X"
  shows "new_missile cfg (Fin X') (Fin X') = falling X 10"
  using assms
  by (simp add: new_missile_def launch_norm_def falling_def Let_def float_subtract_def
      np_square_def)

lemma move_falling:
  assumes "float32 X = Fin X" and "y \<in> {10, 8, 6, 4, 2}"
  shows "move_missile (falling X y) = falling X (y - 2)"
  using assms by (auto simp add: move_missile_def falling_def Let_def np_subtract_def)

lemma hit_falling [simp]: "hit_ground (falling X y) = (y = 0)"
  by (auto simp add: hit_ground_def falling_def)

lemma step_falling:
  assumes "nb_missiles_launched s = ENEMY_MISSILES_NUMBER cfg"
    and "enemy_missiles s = [falling X y]" and "y \<in> {10, 8, 6, 4}" and "float32 X = Fin X"
  shows "step cfg a s = (False, s\<lparr>enemy_missiles := [falling X (y - 2)]\<rparr>)"
proof -
  have "move_missile (falling X y) = falling X (y - 2)"
    using assms(3,4) by (intro move_falling) auto
  moreover have "y - 2 \<noteq> 0"
    using assms(3) by auto
  ultimately show ?thesis
    using assms(1,2)
    by (simp add: step_def Let_def move_phase_def launch_phase_def remove_phase_def)
qed

lemma step_landing:
  assumes "nb_missiles_launched s = ENEMY_MISSILES_NUMBER cfg"
    and "enemy_missiles s = [falling X 2]" and "float32 X = Fin X"
  shows "step cfg a s = (True, s\<lparr>enemy_missiles := []\<rparr>)"
proof -
  have "move_missile (falling X 2) = falling X (2 - 2)"
    using assms(3) by (intro move_falling) auto
  then show ?thesis
    using assms(1,2)
    by (simp add: step_def Let_def move_phase_def launch_phase_def remove_phase_def)
qed

lemma drawn_x0_eq:
  "drawn_x0 cfg s =
     float_add (scaled (fst (start_pos_range s)) cfg)
       (float_multiply
          (float_subtract (scaled (snd (start_pos_range s)) cfg)
             (scaled (fst (start_pos_range s)) cfg))
          (Fin (rng_python s 0)))"
  by (simp add: drawn_x0_def rng_uniform_def rng_random_def)

lemma drawn_x1_eq:
  "drawn_x1 cfg s =
     float_add (scaled (fst (end_pos_range s)) cfg)
       (float_multiply
          (float_subtract (scaled (snd (end_pos_range s)) cfg)
             (scaled (fst (end_pos_range s)) cfg))
          (Fin (rng_python s (Suc 0))))"
  by (simp add: drawn_x1_def rng_uniform_def rng_random_def)

lemma step_first_launch:
  assumes "ENEMY_MISSILES_NUMBER cfg = 1" "ENEMY_MISSILES_PROBA_IN cfg = 1"
    and "ENEMY_MISSILES_SPEED cfg = 2" "EPISODE_HEIGHT cfg = 10"
    and "enemy_missiles s = []" "nb_missiles_launched s = 0"
    and "rng_python s 0 \<le> 1"
    and "drawn_x0 cfg (s\<lparr>rng_python := (\<lambda>n. rng_python s (Suc n))\<rparr>) = Fin X'"
    and "drawn_x1 cfg (s\<lparr>rng_python := (\<lambda>n. rng_python s (Suc n))\<rparr>) = Fin X'"
    and "float32 X' = Fin X"
  shows "step cfg a s =
    (False, s\<lparr>enemy_missiles := [falling X 10], nb_missiles_launched := 1,
              rng_python := (\<lambda>n. rng_python s (Suc (Suc (Suc n))))\<rparr>)"
  using assms
  by (simp add: step_def Let_def move_phase_def launch_phase_eq launch_missile_eq
      remove_phase_def new_missile_falling drawn_x0_eq drawn_x1_eq)

lemma trajectory_finished:
  assumes "enemy_missiles s = []" "nb_missiles_launched s = ENEMY_MISSILES_NUMBER cfg"
  shows "trajectory cfg as s = replicate (length as) (True, s)"
  using assms by (induction as) (simp_all add: step_finished)

lemma observed_finished:
  assumes "enemy_missiles s = []" "nb_missiles_launched s = ENEMY_MISSILES_NUMBER cfg"
  shows "observed (trajectory cfg as s) = replicate (length as) (True, [])"
  using assms by (simp add: trajectory_finished observed_def)

lemma observed_Cons:
  "observed (trajectory cfg (a # as) s) =
     (fst (step cfg a s), enemy_missiles (snd (step cfg a s))) #
     observed (trajectory cfg as (snd (step cfg a s)))"
  by (simp add: observed_def split: prod.splits)

lemma padded_Nil [simp]: "padded [] v n = replicate n v"
  by (simp add: padded_def)

lemma padded_0 [simp]: "padded xs v 0 = []"
  by (simp add: padded_def)

lemma padded_Cons [simp]: "padded (x # xs) v (Suc n) = x # padded xs v n"
proof -
  have "take n (xs @ replicate (Suc n) v) = take n (xs @ replicate n v)"
    by (rule nth_equalityI) (auto simp add: nth_append simp del: replicate_Suc)
  then show ?thesis by (simp add: padded_def)
qed

lemma padded_nth: "k < n \<Longrightarrow> padded xs v n ! k = (if k < length xs then xs ! k else v)"
  by (simp add: padded_def nth_append)

lemma length_padded [simp]: "length (padded xs v n) = n"
  by (simp add: padded_def)

lemma observed_from_2:
  assumes "nb_missiles_launched s = ENEMY_MISSILES_NUMBER cfg"
    and "enemy_missiles s = [falling X 2]" and "float32 X = Fin X"
  shows "observed (trajectory cfg as s) = padded [] (True, []) (length as)"
proof (cases as)
  case Nil
  then show ?thesis by (simp add: observed_def)
next
  case (Cons a bs)
  then show ?thesis
    using assms by (simp add: observed_Cons step_landing observed_finished del: trajectory.simps)
qed

lemma observed_from_4:
  assumes "nb_missiles_launched s = ENEMY_MISSILES_NUMBER cfg"
    and "enemy_missiles s = [falling X 4]" and "float32 X = Fin X"
  shows "observed (trajectory cfg as s) = padded [(False, [falling X 2])] (True, []) (length as)"
proof (cases as)
  case Nil
  then show ?thesis by (simp add: observed_def)
next
  case (Cons a bs)
  then show ?thesis
    using assms by (simp add: observed_Cons step_falling observed_from_2 del: trajectory.simps)
qed

lemma observed_from_6:
  assumes "nb_missiles_launched s = ENEMY_MISSILES_NUMBER cfg"
    and "enemy_missiles s = [falling X 6]" and "float32 X = Fin X"
  shows "observed (trajectory cfg as s) = padded [(False, [falling X 4]), (False, [falling X 2])] (True, []) (length as)"
proof (cases as)
  case Nil
  then show ?thesis by (simp add: observed_def)
next
  case (Cons a bs)
  then show ?thesis
    using assms by (simp add: observed_Cons step_falling observed_from_4 del: trajectory.simps)
qed

lemma observed_from_8:
  assumes "nb_missiles_launched s = ENEMY_MISSILES_NUMBER cfg"
    and "enemy_missiles s = [falling X 8]" and "float32 X = Fin X"
  shows "observed (trajectory cfg as s) = padded [(False, [falling X 6]), (False, [falling X 4]), (False, [falling X 2])] (True, []) (length as)"
proof (cases as)
  case Nil
  then show ?thesis by (simp add: observed_def)
next
  case (Cons a bs)
  then show ?thesis
    using assms by (simp add: observed_Cons step_falling observed_from_6 del: trajectory.simps)
qed

lemma observed_from_10:
  assumes "nb_missiles_launched s = ENEMY_MISSILES_NUMBER cfg"
    and "enemy_missiles s = [falling X 10]" and "float32 X = Fin X"
  shows "observed (trajectory cfg as s) = padded [(False, [falling X 8]), (False, [falling X 6]), (False, [falling X 4]), (False, [falling X 2])] (True, []) (length as)"
proof (cases as)
  case Nil
  then show ?thesis by (simp add: observed_def)
next
  case (Cons a bs)
  then show ?thesis
    using assms by (simp add: observed_Cons step_falling observed_from_8 del: trajectory.simps)
qed

lemma scenario_observed:
  assumes "ENEMY_MISSILES_NUMBER cfg = 1" "ENEMY_MISSILES_PROBA_IN cfg = 1"
    and "ENEMY_MISSILES_SPEED cfg = 2" "EPISODE_HEIGHT cfg = 10"
    and "enemy_missiles s = []" "nb_missiles_launched s = 0"
    and "rng_python s 0 \<le> 1"
    and "drawn_x0 cfg (s\<lparr>rng_python := (\<lambda>n. rng_python s (Suc n))\<rparr>) = Fin X'"
    and "drawn_x1 cfg (s\<lparr>rng_python := (\<lambda>n. rng_python s (Suc n))\<rparr>) = Fin X'"
    and "float32 X' = Fin X" and "float32 X = Fin X"
  shows "observed (trajectory cfg as s) =
    padded [(False, [falling X 10]), (False, [falling X 8]), (False, [falling X 6]),
      (False, [falling X 4]), (False, [falling X 2])] (True, []) (length as)"
proof (cases as)
  case Nil
  then show ?thesis by (simp add: observed_def)
next
  case (Cons a bs)
  then show ?thesis
    using assms(1,5,6,11)
    by (simp add: observed_Cons step_first_launch [OF assms(1-10)] observed_from_10
        del: trajectory.simps)
qed

subsection \<open>Launched counter\<close>

lemma episode_nb_bound:
  assumes "episode cfg s t" "nb_missiles_launched s \<le> ENEMY_MISSILES_NUMBER cfg"
  shows "nb_missiles_launched s \<le> nb_missiles_launched t \<and>
         nb_missiles_launched t \<le> ENEMY_MISSILES_NUMBER cfg"
  using assms
proof (induction rule: episode.induct)
  case (episode_step t a)
  then show ?case using step_nb_cases [of cfg a t] by auto
qed simp_all

lemma reachable_nb_bound:
  assumes "reachable cfg mt s" "0 \<le> ENEMY_MISSILES_NUMBER cfg"
  shows "0 \<le> nb_missiles_launched s \<and> nb_missiles_launched s \<le> ENEMY_MISSILES_NUMBER cfg"
  using assms
proof (induction rule: reachable.induct)
  case (reachable_episode s t)
  then show ?case using episode_nb_bound [of cfg s t] by auto
qed (simp_all add: reset_def)

lemma reachable_scenario_start: "reachable scenario_config (\<lambda>seed. half_rng) scenario_start"
  unfolding scenario_start_def by (rule reachable_first_reset)

text \<open>
  \<^bold>\<open>C5.\<close> Let the configured maximum be a count (not negative). In every reachable state
  the launched counter lies between 0 and the configured maximum. A step never decreases
  the counter and increases it by at most 1, and it increases it only when the counter
  was below the maximum before.
\<close>

theorem launched_count_bounds:
  assumes "0 \<le> ENEMY_MISSILES_NUMBER cfg" and "reachable cfg mt s"
  shows "0 \<le> nb_missiles_launched s \<and> nb_missiles_launched s \<le> ENEMY_MISSILES_NUMBER cfg
    \<and> nb_missiles_launched s \<le> nb_missiles_launched (snd (step cfg a s))
    \<and> nb_missiles_launched (snd (step cfg a s)) \<le> nb_missiles_launched s + 1
    \<and> (nb_missiles_launched (snd (step cfg a s)) \<noteq> nb_missiles_launched s
         \<longrightarrow> nb_missiles_launched s < ENEMY_MISSILES_NUMBER cfg)"
  using reachable_nb_bound [OF assms(2,1)] step_nb_cases [of cfg a s] by auto

theorem launched_count_bounds_witness:
  "0 \<le> nb_missiles_launched scenario_start
   \<and> nb_missiles_launched scenario_start \<le> ENEMY_MISSILES_NUMBER scenario_config
   \<and> nb_missiles_launched scenario_start
        \<le> nb_missiles_launched (snd (step scenario_config 0 scenario_start))
   \<and> nb_missiles_launched (snd (step scenario_config 0 scenario_start))
        \<le> nb_missiles_launched scenario_start + 1"
proof -
  have n: "0 \<le> ENEMY_MISSILES_NUMBER scenario_config"
    by (simp add: scenario_config_def)
  show ?thesis
    using launched_count_bounds [OF n reachable_scenario_start, of 0] by simp
qed

subsection \<open>Termination flag\<close>

lemma episode_finished:
  assumes "episode cfg s t" "enemy_missiles s = []"
    and "nb_missiles_launched s = ENEMY_MISSILES_NUMBER cfg"
  shows "enemy_missiles t = [] \<and> nb_missiles_launched t = ENEMY_MISSILES_NUMBER cfg"
  using assms
  by (induction rule: episode.induct) (simp_all add: step_finished)

text \<open>
  \<^bold>\<open>C2.\<close> The flag \<open>done\<close> that a step returns is true exactly when, as the step
  returns, no missile is active and the launched counter equals the configured maximum.
  Once a step has returned true, every later step of the same episode returns true,
  whatever curriculum calls come in between.
\<close>

theorem done_iff_and_stable:
  "fst (step cfg a s) =
     (enemy_missiles (snd (step cfg a s)) = [] \<and>
      nb_missiles_launched (snd (step cfg a s)) = ENEMY_MISSILES_NUMBER cfg)
   \<and> (fst (step cfg a s) \<longrightarrow> episode cfg (snd (step cfg a s)) t \<longrightarrow> fst (step cfg a' t))"
proof (intro conjI impI)
  show "fst (step cfg a s) =
     (enemy_missiles (snd (step cfg a s)) = [] \<and>
      nb_missiles_launched (snd (step cfg a s)) = ENEMY_MISSILES_NUMBER cfg)"
    by (rule step_done_iff)
next
  assume d: "fst (step cfg a s)" and e: "episode cfg (snd (step cfg a s)) t"
  from d have "enemy_missiles (snd (step cfg a s)) = [] \<and>
      nb_missiles_launched (snd (step cfg a s)) = ENEMY_MISSILES_NUMBER cfg"
    by (simp add: step_done_iff [symmetric])
  with e have "enemy_missiles t = [] \<and> nb_missiles_launched t = ENEMY_MISSILES_NUMBER cfg"
    using episode_finished by blast
  then show "fst (step cfg a' t)" by (simp add: step_finished)
qed

lemma step_scenario_tick5:
  "step scenario_config a scenario_tick5 = (True, scenario_tick5\<lparr>enemy_missiles := []\<rparr>)"
  by (rule step_landing [where X = 0]) (simp_all add: scenario_tick5_def scenario_config_def)

theorem done_iff_and_stable_witness:
  "fst (step scenario_config 0 scenario_tick5)
   \<and> fst (step scenario_config 5
        (advance_curriculum (snd (step scenario_config 3 (snd (step scenario_config 0 scenario_tick5))))))"
proof -
  let ?s = "snd (step scenario_config 0 scenario_tick5)"
  have e: "episode scenario_config ?s (advance_curriculum (snd (step scenario_config 3 ?s)))"
    by (intro episode_advance episode_step episode_start)
  have d: "fst (step scenario_config 0 scenario_tick5)"
    by (simp add: step_scenario_tick5)
  from done_iff_and_stable [of scenario_config 0 scenario_tick5
      "advance_curriculum (snd (step scenario_config 3 ?s))" 5] d e
  show ?thesis by blast
qed

subsection \<open>Removal of impacted missiles\<close>

lemma new_missile_not_hit:
  assumes "2 powi (- 149) \<le> EPISODE_HEIGHT cfg"
  shows "\<not> hit_ground (new_missile cfg x0 x1)"
  using float32_not_zero [OF assms] by (simp add: hit_ground_def new_missile_def Let_def)

text \<open>
  \<^bold>\<open>C10.\<close> When a step returns, no active missile has its current position equal to
  its target on both axes; in particular a missile that the movement phase brings to its
  target is gone from the collection when that same step returns. A missile just
  launched is not at its target: it starts at the episode height and its target is at
  height 0 (for every height that binary32 does not round to 0, that is from
  \<open>2 powi (- 149)\<close> on).
\<close>

theorem no_impacted_missile_after_step:
  "(\<forall>m \<in> set (enemy_missiles (snd (step cfg a s))). \<not> hit_ground m)
   \<and> (m \<in> set (enemy_missiles s) \<and> hit_ground (move_missile m)
        \<longrightarrow> move_missile m \<notin> set (enemy_missiles (snd (step cfg a s))))
   \<and> (2 powi (- 149) \<le> EPISODE_HEIGHT cfg \<longrightarrow> \<not> hit_ground (new_missile cfg x0 x1))"
  by (auto simp add: step_missiles new_missile_not_hit)

theorem no_impacted_missile_after_step_witness:
  "hit_ground (move_missile (falling 0 2))
   \<and> move_missile (falling 0 2) \<notin> set (enemy_missiles (snd (step scenario_config 0 scenario_tick5)))
   \<and> \<not> hit_ground (new_missile scenario_config (Fin 0) (Fin 0))"
proof -
  have m: "falling 0 2 \<in> set (enemy_missiles scenario_tick5)"
    by (simp add: scenario_tick5_def)
  have "move_missile (falling 0 2) = falling 0 (2 - 2)"
    by (rule move_falling) simp_all
  then have h: "hit_ground (move_missile (falling 0 2))"
    by simp
  have p: "2 powi (- 149) \<le> EPISODE_HEIGHT scenario_config"
    by (simp add: scenario_config_def)
  from no_impacted_missile_after_step [of scenario_config 0 scenario_tick5 "falling 0 2" "Fin 0" "Fin 0"] m h p
  show ?thesis by blast
qed

subsection \<open>Range setters\<close>

text \<open>
  \<^bold>\<open>C8.\<close> Each of the two setters raises an assertion error exactly when one of the two
  bounds lies outside \<open>[-0.5, 0.5]\<close>; then the object is unchanged. Otherwise the
  active range becomes \<open>(left, right)\<close> and nothing else changes. In particular
  \<^verbatim>\<open>set_start_pos_range(0.6, 0.0)\<close> fails.
\<close>

theorem set_pos_range_checks:
  "fst (set_start_pos_range l r s) =
     (if (- (1 / 2) \<le> l \<and> l \<le> 1 / 2) \<and> (- (1 / 2) \<le> r \<and> r \<le> 1 / 2)
      then None else Some AssertionError)
   \<and> snd (set_start_pos_range l r s) =
     (if (- (1 / 2) \<le> l \<and> l \<le> 1 / 2) \<and> (- (1 / 2) \<le> r \<and> r \<le> 1 / 2)
      then s\<lparr>start_pos_range := (l, r)\<rparr> else s)
   \<and> fst (set_end_pos_range l r s) =
     (if (- (1 / 2) \<le> l \<and> l \<le> 1 / 2) \<and> (- (1 / 2) \<le> r \<and> r \<le> 1 / 2)
      then None else Some AssertionError)
   \<and> snd (set_end_pos_range l r s) =
     (if (- (1 / 2) \<le> l \<and> l \<le> 1 / 2) \<and> (- (1 / 2) \<le> r \<and> r \<le> 1 / 2)
      then s\<lparr>end_pos_range := (l, r)\<rparr> else s)
   \<and> set_start_pos_range (6 / 10) 0 s = (Some AssertionError, s)"
  by (simp add: set_start_pos_range_def set_end_pos_range_def)

theorem set_pos_range_checks_witness:
  "set_start_pos_range (6 / 10) 0 scenario_object = (Some AssertionError, scenario_object)
   \<and> set_end_pos_range (1 / 4) (- (1 / 2)) scenario_object =
       (None, scenario_object\<lparr>end_pos_range := (1 / 4, - (1 / 2))\<rparr>)"
  using set_pos_range_checks [of "6 / 10" 0 scenario_object]
    set_pos_range_checks [of "1 / 4" "- (1 / 2)" scenario_object]
  by (simp add: prod_eq_iff)

subsection \<open>Curriculum\<close>

lemma advance_start:
  "start_pos_range_cur (advance_curriculum s) = tl (start_pos_range_cur s)"
  "start_pos_range (advance_curriculum s) = queue_entry (start_pos_range_cur s) 0"
  by (cases "start_pos_range_cur s"; simp add: advance_curriculum_def Let_def queue_entry_def)+

lemma advance_end:
  "end_pos_range_cur (advance_curriculum s) = tl (end_pos_range_cur s)"
  "end_pos_range (advance_curriculum s) = queue_entry (end_pos_range_cur s) 0"
  by (cases "end_pos_range_cur s"; simp add: advance_curriculum_def Let_def queue_entry_def)+

lemma queue_entry_drop: "queue_entry (drop n q) 0 = queue_entry q n"
  by (simp add: queue_entry_def)

lemma advance_iter_start:
  "start_pos_range_cur ((advance_curriculum ^^ n) s) = drop n (start_pos_range_cur s)
   \<and> start_pos_range ((advance_curriculum ^^ n) s) =
       queue_entry (start_pos_range s # start_pos_range_cur s) n"
proof (induction n)
  case 0
  show ?case by (simp add: queue_entry_def)
next
  case (Suc n)
  then show ?case
    by (simp add: advance_start queue_entry_drop drop_Suc tl_drop) (simp add: queue_entry_def)
qed

lemma advance_iter_end:
  "end_pos_range_cur ((advance_curriculum ^^ n) s) = drop n (end_pos_range_cur s)
   \<and> end_pos_range ((advance_curriculum ^^ n) s) =
       queue_entry (end_pos_range s # end_pos_range_cur s) n"
proof (induction n)
  case 0
  show ?case by (simp add: queue_entry_def)
next
  case (Suc n)
  then show ?case
    by (simp add: advance_end queue_entry_drop drop_Suc tl_drop) (simp add: queue_entry_def)
qed

lemma init_queues:
  assumes "init cfg = Inr c"
  shows "start_pos_range c # start_pos_range_cur c = configured_queue (START_POS_RANGE_CUR cfg)"
    and "end_pos_range c # end_pos_range_cur c = configured_queue (END_POS_RANGE_CUR cfg)"
  using assms
  by (auto simp add: init_def Let_def pop0_def split: list.splits)

lemma init_fails_iff:
  "(init cfg = Inl IndexError) =
     (configured_queue (START_POS_RANGE_CUR cfg) = [] \<or> configured_queue (END_POS_RANGE_CUR cfg) = [])"
  by (auto simp add: init_def Let_def pop0_def split: list.splits)

lemma queue_entries_padded:
  "map (queue_entry q) [0..<n] = padded q full_range n"
  by (rule nth_equalityI) (auto simp add: queue_entry_def padded_nth)

text \<open>
  \<^bold>\<open>C7.\<close> Construct the object from a configuration (which pops the first entry of
  each queue into the active range) and then apply \<^verbatim>\<open>advance_curriculum\<close> \<open>N\<close>
  times. The active ranges seen, from the one after construction to the one after the
  \<open>N\<close>-th application, are the entries of the configured queue in their order followed by
  the full range \<open>(-0.5, 0.5)\<close> from then on. This holds for the start and the end queue.
\<close>

theorem curriculum_sequence:
  assumes "init cfg = Inr c"
  shows "map (\<lambda>n. start_pos_range ((advance_curriculum ^^ n) c)) [0..<Suc N] =
           padded (configured_queue (START_POS_RANGE_CUR cfg)) full_range (Suc N)
       \<and> map (\<lambda>n. end_pos_range ((advance_curriculum ^^ n) c)) [0..<Suc N] =
           padded (configured_queue (END_POS_RANGE_CUR cfg)) full_range (Suc N)"
  using queue_entries_padded [of "configured_queue (START_POS_RANGE_CUR cfg)" "Suc N"]
        queue_entries_padded [of "configured_queue (END_POS_RANGE_CUR cfg)" "Suc N"]
  by (simp only: advance_iter_start advance_iter_end init_queues [OF assms])

lemma init_curriculum_config: "init curriculum_config = Inr curriculum_object"
  by (simp add: init_def curriculum_config_def curriculum_object_def configured_queue_def pop0_def)

theorem curriculum_sequence_witness:
  "map (\<lambda>n. start_pos_range ((advance_curriculum ^^ n) curriculum_object)) [0..<Suc 3] =
     [(- (1 / 10), 1 / 10), (- (3 / 10), 3 / 10), (- (1 / 2), 1 / 2), (- (1 / 2), 1 / 2)]
   \<and> map (\<lambda>n. end_pos_range ((advance_curriculum ^^ n) curriculum_object)) [0..<Suc 3] =
     [(- (1 / 2), 1 / 2), (- (1 / 2), 1 / 2), (- (1 / 2), 1 / 2), (- (1 / 2), 1 / 2)]"
proof -
  have p: "padded [(- (1 / 10), 1 / 10), (- (3 / 10), 3 / 10)] full_range (Suc 3) =
      [(- (1 / 10), 1 / 10), (- (3 / 10), 3 / 10), (- (1 / 2), 1 / 2), (- (1 / 2), 1 / 2 :: real)]"
    by (simp add: padded_def full_range_def numeral_3_eq_3)
  have q: "padded [full_range] full_range (Suc 3) =
      [(- (1 / 2), 1 / 2), (- (1 / 2), 1 / 2), (- (1 / 2), 1 / 2), (- (1 / 2), 1 / 2 :: real)]"
    by (simp add: padded_def full_range_def numeral_3_eq_3)
  show ?thesis
    using curriculum_sequence [OF init_curriculum_config, of 3] p q
    by (simp only: curriculum_config_def config.simps configured_queue_def option.simps)
qed

subsection \<open>The example scenario\<close>

text \<open>
  \<^bold>\<open>C6\<close> (as amended). Configure one missile, launch probability 1, speed 2 and height
  10, reset, and let the two abscissae drawn at the first launch be one finite number,
  \<open>X\<close> being the binary32 number stored for it. Then the ticks show: tick 1, the missile is launched at height 10 with target height 0 and
  does not move; ticks 2 to 5, it is at heights 8, 6, 4 and 2, and \<open>done\<close> is false;
  tick 6, its fifth tick of motion, the movement phase brings it to its target and the
  removal phase of that same tick removes it, and \<open>done\<close> is true; on every later tick no
  missile is active and \<open>done\<close> is true.
\<close>

theorem scenario_ticks:
  assumes "ENEMY_MISSILES_NUMBER cfg = 1" and "ENEMY_MISSILES_PROBA_IN cfg = 1"
    and "ENEMY_MISSILES_SPEED cfg = 2" and "EPISODE_HEIGHT cfg = 10"
    and "unit_rng (Random mt entropy seed)"
    and "drawn_x0 cfg ((reset mt entropy seed c)\<lparr>rng_python := (\<lambda>n. Random mt entropy seed (Suc n))\<rparr>) = Fin X'"
    and "drawn_x1 cfg ((reset mt entropy seed c)\<lparr>rng_python := (\<lambda>n. Random mt entropy seed (Suc n))\<rparr>) = Fin X'"
    and "float32 X' = Fin X"
  shows "observed (trajectory cfg as (reset mt entropy seed c)) =
      padded [(False, [falling X 10]), (False, [falling X 8]), (False, [falling X 6]),
        (False, [falling X 4]), (False, [falling X 2])] (True, []) (length as)
    \<and> move_missile (falling X 2) = falling X 0 \<and> hit_ground (falling X 0)"
proof -
  let ?s = "reset mt entropy seed c"
  have r: "rng_python ?s = Random mt entropy seed"
    by (simp add: reset_def)
  have u: "rng_python ?s 0 \<le> 1"
    using assms(5) by (simp add: r unit_rng_def less_imp_le)
  have e: "enemy_missiles ?s = []" "nb_missiles_launched ?s = 0"
    by (simp_all add: reset_def)
  have x: "float32 X = Fin X"
    using assms(8) by (rule float32_idem)
  have "observed (trajectory cfg as ?s) =
      padded [(False, [falling X 10]), (False, [falling X 8]), (False, [falling X 6]),
        (False, [falling X 4]), (False, [falling X 2])] (True, []) (length as)"
    using assms(6,7) unfolding r [symmetric]
    by (rule scenario_observed [OF assms(1-4) e u _ _ assms(8) x])
  moreover have "move_missile (falling X 2) = falling X (2 - 2)"
    using x by (intro move_falling) auto
  ultimately show ?thesis by simp
qed

lemma unit_half_rng: "unit_rng half_rng"
  by (simp add: unit_rng_def half_rng_def)

lemma scenario_start_eq:
  "scenario_start = reset (\<lambda>seed. half_rng) half_rng (Some 42) scenario_object"
  by (simp add: scenario_start_def)

lemma Random_half [simp]: "Random (\<lambda>seed. half_rng) half_rng seed = half_rng"
  by (simp add: Random_def split: option.splits)

lemma scenario_drawn:
  "drawn_x0 scenario_config (scenario_start\<lparr>rng_python := g\<rparr>) = Fin 0"
  "drawn_x1 scenario_config (scenario_start\<lparr>rng_python := g\<rparr>) = Fin 0"
  by (simp_all add: drawn_x0_eq drawn_x1_eq scenario_start_def reset_def scenario_object_def
      scaled_def float_subtract_def)

lemma scenario_config_fields:
  "ENEMY_MISSILES_NUMBER scenario_config = 1" "ENEMY_MISSILES_PROBA_IN scenario_config = 1"
  "ENEMY_MISSILES_SPEED scenario_config = 2" "EPISODE_HEIGHT scenario_config = 10"
  by (simp_all add: scenario_config_def)

lemma scenario_start_observed:
  "observed (trajectory scenario_config as scenario_start) =
      padded [(False, [falling 0 10]), (False, [falling 0 8]), (False, [falling 0 6]),
        (False, [falling 0 4]), (False, [falling 0 2])] (True, []) (length as)"
  by (rule scenario_observed [OF scenario_config_fields, where X' = 0])
    (simp_all add: scenario_drawn, simp_all add: scenario_start_def reset_def)

theorem scenario_ticks_witness:
  "observed (trajectory scenario_config [0, 0, 0, 0, 0, 0, 0] scenario_start) =
     [(False, [falling 0 10]), (False, [falling 0 8]), (False, [falling 0 6]),
      (False, [falling 0 4]), (False, [falling 0 2]), (True, []), (True, [])]
   \<and> move_missile (falling 0 2) = falling 0 0 \<and> hit_ground (falling 0 0)"
proof -
  have u: "unit_rng (Random (\<lambda>seed. half_rng) half_rng (Some 42))"
    by (simp add: unit_half_rng)
  have x: "drawn_x0 scenario_config
      ((reset (\<lambda>seed. half_rng) half_rng (Some 42) scenario_object)
         \<lparr>rng_python := (\<lambda>n. Random (\<lambda>seed. half_rng) half_rng (Some 42) (Suc n))\<rparr>) = Fin 0"
    "drawn_x1 scenario_config
      ((reset (\<lambda>seed. half_rng) half_rng (Some 42) scenario_object)
         \<lparr>rng_python := (\<lambda>n. Random (\<lambda>seed. half_rng) half_rng (Some 42) (Suc n))\<rparr>) = Fin 0"
    unfolding scenario_start_eq [symmetric] by (rule scenario_drawn)+
  have l: "length [0, 0, 0, 0, 0, 0, 0 :: int] = Suc (Suc (Suc (Suc (Suc (Suc (Suc 0))))))"
    by simp
  have f: "float32 0 = Fin 0"
    by simp
  show ?thesis
    using scenario_ticks [OF scenario_config_fields u x f, of "[0, 0, 0, 0, 0, 0, 0]"]
    unfolding scenario_start_eq [symmetric] l by simp
qed

text \<open>
  As the claim is stated, the missile reaches its target at tick 5 and is removed a tick
  later. In the scenario, when the fifth call of \<^verbatim>\<open>step\<close> returns, the missile is
  active at height 2, which is not its target.
\<close>

theorem scenario_tick5_counterexample:
  "observed (trajectory scenario_config [0, 0, 0, 0, 0] scenario_start) ! 4 = (False, [falling 0 2])
   \<and> cur_y (falling 0 2) = Fin 2 \<and> fin_y (falling 0 2) = Fin 0
   \<and> \<not> hit_ground (falling 0 2)"
proof -
  have l: "length [0, 0, 0, 0, 0 :: int] = Suc (Suc (Suc (Suc (Suc 0))))"
    by simp
  have a: "observed (trajectory scenario_config [0, 0, 0, 0, 0] scenario_start) ! 4 = (False, [falling 0 2])"
    unfolding scenario_start_observed l by simp
  have b: "cur_y (falling 0 2) = Fin 2 \<and> fin_y (falling 0 2) = Fin 0"
    by (simp add: falling_def)
  have c: "\<not> hit_ground (falling 0 2)"
    by simp
  from a b c show ?thesis by blast
qed

subsection \<open>The norm at launch\<close>

lemma np_square_nonneg:
  "np_square (float64 d) = PInf \<or> (\<exists>z. np_square (float64 d) = Fin z \<and> 0 \<le> z)"
proof (cases "float64 d")
  case (Fin y)
  with float64_nonneg [of "y * y"] show ?thesis
    by (simp add: np_square_def)
qed (simp_all add: np_square_def)

lemma np_square_height:
  assumes "2 powi (- 537) \<le> h"
  shows "np_square (float64 (- h)) = PInf \<or>
    (\<exists>b. np_square (float64 (- h)) = Fin b \<and> 2 powi (- 1074) \<le> b)"
proof -
  from float64_ge_power [OF _ assms]
  consider "float64 h = PInf" | y where "float64 h = Fin y" "2 powi (- 537) \<le> y"
    by auto
  then show ?thesis
  proof cases
    case 1
    then show ?thesis by (simp add: float64_minus np_square_def)
  next
    case 2
    have "(2::real) powi (- 1074) = 2 powi (- 537) * 2 powi (- 537)"
      by (simp add: power_int_add [symmetric])
    also have "\<dots> \<le> y * y"
      using 2(2) by (intro mult_mono) simp_all
    finally have "2 powi (- 1074) \<le> y * y" .
    from float64_ge_power [OF _ this] 2(1) show ?thesis
      by (simp add: float64_minus np_square_def)
  qed
qed

lemma np_sqrt_pos:
  assumes "2 powi (- 1074) \<le> s"
  shows "np_sqrt (Fin s) = PInf \<or> (\<exists>n. np_sqrt (Fin s) = Fin n \<and> 0 < n)"
proof -
  have p: "(0::real) < 2 powi (- 537)"
    by simp
  have e: "(2::real) powi (- 1074) = 2 powi (- 537) * 2 powi (- 537)"
    by (simp add: power_int_add [symmetric])
  have "sqrt (2 powi (- 537) * 2 powi (- 537)) = \<bar>2 powi (- 537) :: real\<bar>"
    by (rule real_sqrt_abs2)
  also have "\<dots> = 2 powi (- 537)"
    by (rule abs_of_pos [OF p])
  finally have q: "sqrt (2 powi (- 537) * 2 powi (- 537)) = (2 powi (- 537) :: real)" .
  have "sqrt (2 powi (- 537) * 2 powi (- 537)) \<le> sqrt s"
    using assms unfolding e by (simp only: real_sqrt_le_iff)
  then have r: "2 powi (- 537) \<le> sqrt s"
    by (simp only: q)
  have "(0::real) < 2 powi (- 1074)"
    by simp
  with assms have s: "\<not> s < 0"
    by linarith
  from float64_ge_power [OF _ r] consider "float64 (sqrt s) = PInf"
    | n where "float64 (sqrt s) = Fin n" "2 powi (- 537) \<le> n"
    by auto
  then show ?thesis
  proof cases
    case 1
    then show ?thesis using s by simp
  next
    case 2
    with p have "0 < n" by linarith
    with 2(1) s show ?thesis by simp
  qed
qed

lemma launch_norm_pos:
  assumes "2 powi (- 537) \<le> EPISODE_HEIGHT cfg"
  shows "launch_norm cfg (Fin x0) (Fin x1) = PInf \<or>
    (\<exists>n. launch_norm cfg (Fin x0) (Fin x1) = Fin n \<and> 0 < n)"
proof -
  define A where "A = np_square (float64 (x1 - x0))"
  define B where "B = np_square (float64 (- EPISODE_HEIGHT cfg))"
  have n: "launch_norm cfg (Fin x0) (Fin x1) = np_sqrt (float_add A B)"
    by (simp add: launch_norm_def Let_def float_subtract_def A_def B_def)
  have a: "A = PInf \<or> (\<exists>z. A = Fin z \<and> 0 \<le> z)"
    unfolding A_def by (rule np_square_nonneg)
  have b: "B = PInf \<or> (\<exists>b. B = Fin b \<and> 2 powi (- 1074) \<le> b)"
    unfolding B_def using assms by (rule np_square_height)
  have "float_add A B = PInf \<or> (\<exists>s. float_add A B = Fin s \<and> 2 powi (- 1074) \<le> s)"
  proof -
    from a b consider "A = PInf" "B = PInf \<or> (\<exists>b. B = Fin b)"
      | "B = PInf" "\<exists>z. A = Fin z"
      | z b where "A = Fin z" "0 \<le> z" "B = Fin b" "2 powi (- 1074) \<le> b"
      by blast
    then show ?thesis
    proof cases
      case 1
      then show ?thesis by auto
    next
      case 2
      then show ?thesis by auto
    next
      case 3
      then have "2 powi (- 1074) \<le> z + b"
        by linarith
      from float64_ge_power [OF _ this] 3(1,3) show ?thesis
        by simp
    qed
  qed
  then consider "float_add A B = PInf"
    | s where "float_add A B = Fin s" "2 powi (- 1074) \<le> s"
    by blast
  then show ?thesis
  proof cases
    case 1
    then show ?thesis by (simp add: n)
  next
    case 2
    from np_sqrt_pos [OF 2(2)] show ?thesis
      by (simp only: n 2(1))
  qed
qed

lemma scenario_norm: "launch_norm scenario_config (Fin 0) (Fin 0) = Fin 10"
  by (simp add: launch_norm_def Let_def float_subtract_def np_square_def scenario_config_def)

lemma scenario_new_missile: "new_missile scenario_config (Fin 0) (Fin 0) = falling 0 10"
  by (rule new_missile_falling) (simp_all add: scenario_config_def)

text \<open>
  \<^bold>\<open>C9\<close> (as amended). \<^verbatim>\<open>_launch_missile\<close> has no guard on the norm: it divides by
  the norm whatever it is, appends the row and counts it. When the episode height is at
  least \<open>2 powi (- 537)\<close>, so that its square does not underflow to zero in binary64
  (every height from 1 on is such), and the two abscissae drawn are finite, the norm
  computed is strictly positive, a positive number or \<open>+inf\<close>: neither division
  divides by zero.
\<close>

theorem launch_norm_positive:
  assumes "2 powi (- 537) \<le> EPISODE_HEIGHT cfg"
  shows "(launch_norm cfg (Fin x0) (Fin x1) = PInf \<or>
      (\<exists>n. launch_norm cfg (Fin x0) (Fin x1) = Fin n \<and> 0 < n))
   \<and> launch_norm cfg (Fin x0) (Fin x1) \<noteq> Fin 0
   \<and> vel_x (new_missile cfg (Fin x0) (Fin x1)) =
       as_float32 (float_multiply (Fin (ENEMY_MISSILES_SPEED cfg))
         (np_true_divide (float_subtract (Fin x1) (Fin x0)) (launch_norm cfg (Fin x0) (Fin x1))))
   \<and> vel_y (new_missile cfg (Fin x0) (Fin x1)) =
       as_float32 (float_multiply (Fin (ENEMY_MISSILES_SPEED cfg))
         (np_true_divide (float_subtract (Fin 0) (Fin (EPISODE_HEIGHT cfg)))
            (launch_norm cfg (Fin x0) (Fin x1))))
   \<and> enemy_missiles (launch_missile cfg s) =
       enemy_missiles s @ [new_missile cfg (drawn_x0 cfg s) (drawn_x1 cfg s)]
   \<and> nb_missiles_launched (launch_missile cfg s) = nb_missiles_launched s + 1"
proof -
  have p: "launch_norm cfg (Fin x0) (Fin x1) = PInf \<or>
      (\<exists>n. launch_norm cfg (Fin x0) (Fin x1) = Fin n \<and> 0 < n)"
    using assms by (rule launch_norm_pos)
  then have z: "launch_norm cfg (Fin x0) (Fin x1) \<noteq> Fin 0"
    by auto
  have v: "vel_x (new_missile cfg (Fin x0) (Fin x1)) =
       as_float32 (float_multiply (Fin (ENEMY_MISSILES_SPEED cfg))
         (np_true_divide (float_subtract (Fin x1) (Fin x0)) (launch_norm cfg (Fin x0) (Fin x1))))"
    "vel_y (new_missile cfg (Fin x0) (Fin x1)) =
       as_float32 (float_multiply (Fin (ENEMY_MISSILES_SPEED cfg))
         (np_true_divide (float_subtract (Fin 0) (Fin (EPISODE_HEIGHT cfg)))
            (launch_norm cfg (Fin x0) (Fin x1))))"
    by (simp_all add: new_missile_def Let_def)
  have l: "enemy_missiles (launch_missile cfg s) =
       enemy_missiles s @ [new_missile cfg (drawn_x0 cfg s) (drawn_x1 cfg s)]"
    "nb_missiles_launched (launch_missile cfg s) = nb_missiles_launched s + 1"
    by (simp_all add: launch_missile_eq)
  from p z v l show ?thesis by (intro conjI)
qed

theorem launch_norm_positive_witness:
  "2 powi (- 537) \<le> EPISODE_HEIGHT scenario_config
   \<and> launch_norm scenario_config (Fin 0) (Fin 0) = Fin 10
   \<and> vel_y (new_missile scenario_config (Fin 0) (Fin 0)) =
       as_float32 (float_multiply (Fin (ENEMY_MISSILES_SPEED scenario_config))
         (np_true_divide (float_subtract (Fin 0) (Fin (EPISODE_HEIGHT scenario_config)))
            (Fin 10)))
   \<and> vel_y (new_missile scenario_config (Fin 0) (Fin 0)) = Fin (- 2)"
proof -
  have "(2::real) powi (- 537) \<le> 2 powi 0"
    by (intro power_int_increasing) simp_all
  then have h: "2 powi (- 537) \<le> EPISODE_HEIGHT scenario_config"
    by (simp add: scenario_config_def)
  have v: "vel_y (new_missile scenario_config (Fin 0) (Fin 0)) = Fin (- 2)"
    by (simp add: scenario_new_missile falling_def)
  show ?thesis
    using launch_norm_positive [OF h, of 0 0 scenario_start] h v
    by (simp only: scenario_norm)
qed

text \<open>
  As the claim is stated, a launch with norm 0 fails on an assertion, and a strictly
  positive height makes the norm strictly positive. On flat ground (height 0) with both
  ranges the point 0, start and target coincide and the norm is 0; the call returns all
  the same: it appends a row whose velocity is NaN and counts it. At the strictly
  positive height \<open>1/2^600\<close>, a binary64 number, the square of the height underflows
  to zero, the norm is 0 again, and the row appended has the velocity \<open>(NaN, -inf)\<close>.
\<close>

theorem launch_unguarded_counterexample:
  "launch_norm degenerate_config (Fin 0) (Fin 0) = Fin 0
   \<and> launch_missile degenerate_config scenario_start =
     scenario_start
       \<lparr>enemy_missiles :=
          [\<lparr>init_x = Fin 0, init_y = Fin 0, cur_x = Fin 0, cur_y = Fin 0,
            fin_x = Fin 0, fin_y = Fin 0, vel_x = NaN, vel_y = NaN\<rparr>],
        nb_missiles_launched := 1,
        rng_python := half_rng\<rparr>
   \<and> 0 < EPISODE_HEIGHT underflow_config
   \<and> launch_norm underflow_config (Fin 0) (Fin 0) = Fin 0
   \<and> launch_missile underflow_config scenario_start =
     scenario_start
       \<lparr>enemy_missiles :=
          [\<lparr>init_x = Fin 0, init_y = Fin 0, cur_x = Fin 0, cur_y = Fin 0,
            fin_x = Fin 0, fin_y = Fin 0, vel_x = NaN, vel_y = NInf\<rparr>],
        nb_missiles_launched := 1,
        rng_python := half_rng\<rparr>"
proof -
  have d: "drawn_x0 c scenario_start = Fin 0" "drawn_x1 c scenario_start = Fin 0" for c
    by (simp_all add: drawn_x0_eq drawn_x1_eq scenario_start_def reset_def scenario_object_def
      scaled_def float_subtract_def)
  have n0: "launch_norm degenerate_config (Fin 0) (Fin 0) = Fin 0"
    by (simp add: launch_norm_def Let_def float_subtract_def np_square_def
        degenerate_config_def scenario_config_def)
  have m0: "new_missile degenerate_config (Fin 0) (Fin 0) =
      \<lparr>init_x = Fin 0, init_y = Fin 0, cur_x = Fin 0, cur_y = Fin 0,
       fin_x = Fin 0, fin_y = Fin 0, vel_x = NaN, vel_y = NaN\<rparr>"
    by (simp add: new_missile_def n0 Let_def float_subtract_def)
      (simp add: degenerate_config_def scenario_config_def)
  have l0: "launch_missile degenerate_config scenario_start =
     scenario_start
       \<lparr>enemy_missiles :=
          [\<lparr>init_x = Fin 0, init_y = Fin 0, cur_x = Fin 0, cur_y = Fin 0,
            fin_x = Fin 0, fin_y = Fin 0, vel_x = NaN, vel_y = NaN\<rparr>],
        nb_missiles_launched := 1,
        rng_python := half_rng\<rparr>"
    by (simp add: launch_missile_eq d m0) (simp add: scenario_start_def reset_def)
  have h: "EPISODE_HEIGHT underflow_config = 1 / 2 ^ 600"
    "ENEMY_MISSILES_SPEED underflow_config = 2"
    by (simp_all add: underflow_config_def scenario_config_def)
  have p: "0 < EPISODE_HEIGHT underflow_config"
    by (simp add: h)
  have f: "float64 (- (1 / 2 ^ 600)) = Fin (- (1 / 2 ^ 600))"
    by (simp add: float64_eval [where e = "- 600"] round_half_even_def)
  have g: "float64 (1 / 2 ^ 600 * (1 / 2 ^ 600)) = Fin 0"
    by (simp add: float64_subnormal [where r = 0] round_half_even_def)
  have k: "float32 (1 / 2 ^ 600) = Fin 0"
    by (simp add: float32_subnormal [where r = 0] round_half_even_def)
  have n1: "launch_norm underflow_config (Fin 0) (Fin 0) = Fin 0"
    using f g by (simp add: launch_norm_def Let_def float_subtract_def np_square_def h)
  have m1: "new_missile underflow_config (Fin 0) (Fin 0) =
      \<lparr>init_x = Fin 0, init_y = Fin 0, cur_x = Fin 0, cur_y = Fin 0,
       fin_x = Fin 0, fin_y = Fin 0, vel_x = NaN, vel_y = NInf\<rparr>"
    using f k by (simp add: new_missile_def n1 Let_def float_subtract_def h)
  have l1: "launch_missile underflow_config scenario_start =
     scenario_start
       \<lparr>enemy_missiles :=
          [\<lparr>init_x = Fin 0, init_y = Fin 0, cur_x = Fin 0, cur_y = Fin 0,
            fin_x = Fin 0, fin_y = Fin 0, vel_x = NaN, vel_y = NInf\<rparr>],
        nb_missiles_launched := 1,
        rng_python := half_rng\<rparr>"
    by (simp add: launch_missile_eq d m1) (simp add: scenario_start_def reset_def)
  from n0 l0 p n1 l1 show ?thesis by (intro conjI)
qed

subsection \<open>Determinism\<close>

lemma same_move_phase:
  "same_episode_state s t \<Longrightarrow> same_episode_state (move_phase s) (move_phase t)"
  by (simp add: same_episode_state_def move_phase_def)

lemma same_launch_phase:
  "same_episode_state s t \<Longrightarrow> same_episode_state (launch_phase cfg s) (launch_phase cfg t)"
  by (simp add: same_episode_state_def launch_phase_eq launch_missile_eq drawn_x0_eq drawn_x1_eq)

lemma same_remove_phase:
  "same_episode_state s t \<Longrightarrow> same_episode_state (remove_phase s) (remove_phase t)"
  by (simp add: same_episode_state_def remove_phase_def)

lemma same_step:
  assumes "same_episode_state s t"
  shows "fst (step cfg a s) = fst (step cfg a' t)
    \<and> same_episode_state (snd (step cfg a s)) (snd (step cfg a' t))
    \<and> launched_by_step cfg s = launched_by_step cfg t"
proof -
  have m: "same_episode_state (move_phase s) (move_phase t)"
    using assms by (rule same_move_phase)
  then have l: "same_episode_state (launch_phase cfg (move_phase s)) (launch_phase cfg (move_phase t))"
    by (rule same_launch_phase)
  then have r: "same_episode_state (remove_phase (launch_phase cfg (move_phase s)))
      (remove_phase (launch_phase cfg (move_phase t)))"
    by (rule same_remove_phase)
  from m l r show ?thesis
    by (simp add: step_def Let_def launched_by_step_def same_episode_state_def)
qed

lemma same_events:
  "same_episode_state s t \<Longrightarrow> events cfg as s = events cfg as t"
proof (induction as arbitrary: s t)
  case Nil
  show ?case by simp
next
  case (Cons a as)
  from same_step [OF Cons.prems, of cfg a a]
  show ?case by (simp add: Cons.IH)
qed

lemma same_observed:
  "same_episode_state s t \<Longrightarrow> observed (trajectory cfg as s) = observed (trajectory cfg as t)"
proof (induction as arbitrary: s t)
  case Nil
  show ?case by (simp add: observed_def)
next
  case (Cons a as)
  from same_step [OF Cons.prems, of cfg a a] Cons.IH [of "snd (step cfg a s)" "snd (step cfg a t)"]
  show ?case by (simp add: observed_Cons same_episode_state_def del: trajectory.simps)
qed

lemma events_action_irrelevant:
  "length as = length bs \<Longrightarrow> events cfg as s = events cfg bs s"
proof (induction as bs arbitrary: s rule: list_induct2)
  case Nil
  show ?case by simp
next
  case (Cons a as b bs)
  have "step cfg a s = step cfg b s" by (simp add: step_def)
  then show ?case by (simp add: Cons.IH)
qed

text \<open>
  \<^bold>\<open>C4\<close> (as amended). Take two objects in any states whatever (any rows, counter,
  generator and queues left by earlier episodes) that have the same active start and end
  ranges, which \<^verbatim>\<open>reset\<close> does not touch. Reset both with the same integer seed and
  step both with the same actions. The two runs make their launches at the same ticks,
  with the same start and target coordinates, return the same \<open>done\<close> flags and show the
  same rows.
\<close>

theorem seeded_runs_agree:
  assumes "start_pos_range s1 = start_pos_range s2"
    and "end_pos_range s1 = end_pos_range s2"
  shows "events cfg as (reset mt entropy1 (Some seed) s1) =
         events cfg as (reset mt entropy2 (Some seed) s2)
     \<and> observed (trajectory cfg as (reset mt entropy1 (Some seed) s1)) =
       observed (trajectory cfg as (reset mt entropy2 (Some seed) s2))"
proof -
  have "same_episode_state (reset mt entropy1 (Some seed) s1) (reset mt entropy2 (Some seed) s2)"
    using assms by (simp add: same_episode_state_def reset_def Random_def)
  then show ?thesis by (simp add: same_events same_observed)
qed

theorem seeded_runs_agree_witness:
  "events scenario_config [0, 0] (reset (\<lambda>seed. half_rng) (\<lambda>n. 0) (Some 42) scenario_tick5) =
   events scenario_config [0, 0] (reset (\<lambda>seed. half_rng) half_rng (Some 42) scenario_object)
   \<and> observed (trajectory scenario_config [0, 0]
        (reset (\<lambda>seed. half_rng) (\<lambda>n. 0) (Some 42) scenario_tick5)) =
     observed (trajectory scenario_config [0, 0]
        (reset (\<lambda>seed. half_rng) half_rng (Some 42) scenario_object))"
proof -
  have a: "start_pos_range scenario_tick5 = start_pos_range scenario_object"
    by (simp add: scenario_tick5_def scenario_start_def reset_def)
  have b: "end_pos_range scenario_tick5 = end_pos_range scenario_object"
    by (simp add: scenario_tick5_def scenario_start_def reset_def)
  show ?thesis
    by (rule seeded_runs_agree [OF a b])
qed

text \<open>
  As the claim is stated, the run after a seeded reset does not depend on what came
  before. \<^verbatim>\<open>reset\<close> keeps the active ranges: in the scenario, with the same
  configuration, seed and action, the first launch starts at \<open>x = 0\<close>, and after an
  earlier call \<^verbatim>\<open>set_start_pos_range(0.25, 0.25)\<close> it starts at \<open>x = 5\<close>.
\<close>

theorem seeded_runs_differ_counterexample:
  "reachable scenario_config (\<lambda>seed. half_rng) scenario_start
   \<and> reachable scenario_config (\<lambda>seed. half_rng)
        (snd (set_start_pos_range (1 / 4) (1 / 4) scenario_start))
   \<and> events scenario_config [0] (reset (\<lambda>seed. half_rng) half_rng (Some 42) scenario_start) =
       [(Some (Fin 0, Fin 10, Fin 0, Fin 0), False)]
   \<and> events scenario_config [0]
        (reset (\<lambda>seed. half_rng) half_rng (Some 42)
           (snd (set_start_pos_range (1 / 4) (1 / 4) scenario_start))) =
       [(Some (Fin 5, Fin 10, Fin 0, Fin 0), False)]"
proof -
  let ?mt = "\<lambda>seed :: int. half_rng"
  let ?s = "reset ?mt half_rng (Some 42) scenario_start"
  let ?p = "snd (set_start_pos_range (1 / 4) (1 / 4) scenario_start)"
  let ?t = "reset ?mt half_rng (Some 42) ?p"
  have r1: "reachable scenario_config ?mt scenario_start"
    by (rule reachable_scenario_start)
  have r2: "reachable scenario_config ?mt ?p"
    by (rule reachable_episode [OF r1]) (intro episode_set_start episode_start)
  have f5: "float32 5 = Fin 5"
    by (simp add: float32_eval [where e = 2] round_half_even_def)
  have c: "ENEMY_MISSILES_NUMBER scenario_config = 1" "ENEMY_MISSILES_PROBA_IN scenario_config = 1"
    "ENEMY_MISSILES_SPEED scenario_config = 2" "EPISODE_HEIGHT scenario_config = 10"
    "EPISODE_WIDTH scenario_config = 20"
    by (simp_all add: scenario_config_def)
  have s: "enemy_missiles ?s = []" "nb_missiles_launched ?s = 0" "rng_python ?s = half_rng"
    "start_pos_range ?s = (0, 0)" "end_pos_range ?s = (0, 0)"
    by (simp_all add: reset_def scenario_start_def scenario_object_def)
  have t: "enemy_missiles ?t = []" "nb_missiles_launched ?t = 0" "rng_python ?t = half_rng"
    "start_pos_range ?t = (1 / 4, 1 / 4)" "end_pos_range ?t = (0, 0)"
    by (simp_all add: reset_def scenario_start_def scenario_object_def set_start_pos_range_def)
  have ms: "enemy_missiles (launch_phase scenario_config (move_phase ?s)) =
      [new_missile scenario_config (Fin 0) (Fin 0)]"
    by (simp add: launch_phase_eq launch_missile_eq move_phase_def drawn_x0_eq drawn_x1_eq
        c s scaled_def float_subtract_def)
  have mt: "enemy_missiles (launch_phase scenario_config (move_phase ?t)) =
      [new_missile scenario_config (Fin 5) (Fin 0)]"
    by (simp add: launch_phase_eq launch_missile_eq move_phase_def drawn_x0_eq drawn_x1_eq
        c t scaled_def float_subtract_def)
  have ns: "nb_missiles_launched (launch_phase scenario_config (move_phase ?s)) = 1"
    by (simp add: launch_phase_eq launch_missile_eq move_phase_def c s)
  have nt: "nb_missiles_launched (launch_phase scenario_config (move_phase ?t)) = 1"
    by (simp add: launch_phase_eq launch_missile_eq move_phase_def c t)
  have i: "init_x (new_missile scenario_config x0 x1) = as_float32 x0"
    "init_y (new_missile scenario_config x0 x1) = Fin 10"
    "fin_x (new_missile scenario_config x0 x1) = as_float32 x1"
    "fin_y (new_missile scenario_config x0 x1) = Fin 0" for x0 x1
    by (simp_all add: new_missile_def Let_def c)
  have h: "\<not> hit_ground (new_missile scenario_config x0 x1)" for x0 x1
    by (rule new_missile_not_hit) (simp add: c)
  have ls: "launched_by_step scenario_config ?s = Some (Fin 0, Fin 10, Fin 0, Fin 0)"
    by (simp add: launched_by_step_def Let_def ms ns i s(2))
  have lt: "launched_by_step scenario_config ?t = Some (Fin 5, Fin 10, Fin 0, Fin 0)"
    by (simp add: launched_by_step_def Let_def mt nt i t(2) f5)
  have ds: "\<not> fst (step scenario_config 0 ?s)"
    by (simp add: step_done_iff step_missiles ms h)
  have dt: "\<not> fst (step scenario_config 0 ?t)"
    by (simp add: step_done_iff step_missiles mt h)
  have es: "events scenario_config [0] ?s = [(Some (Fin 0, Fin 10, Fin 0, Fin 0), False)]"
    using ls ds by simp
  have et: "events scenario_config [0] ?t = [(Some (Fin 5, Fin 10, Fin 0, Fin 0), False)]"
    using lt dt by simp
  from r1 r2 es et show ?thesis by (intro conjI)
qed

subsection \<open>Overshoot by rounding\<close>

lemma sqrt_25 [simp]: "sqrt 25 = 5"
  using real_sqrt_abs [of 5] by simp

lemma float32_slanted:
  "float32 (- (33554433 / 8388608)) = Fin (- 4)"
  "float32 (- (8388609 / 8388608)) = Fin (- (8388609 / 8388608))"
  "float32 (25165823 / 8388608) = Fin 3"
  "float32 (- (1 / 8388608)) = Fin (- (1 / 8388608))"
  "float32 (1 / 8388608) = Fin (1 / 8388608)"
  "float32 (- (8388607 / 8388608)) = Fin (- (8388607 / 8388608))"
  by (simp_all add: float32_eval [where e = 0] float32_eval [where e = 1]
      float32_eval [where e = 2] float32_eval [where e = "- 1"]
      float32_eval [where e = "- 23"] round_half_even_def)

lemma init_overshoot: "init overshoot_config = Inr overshoot_object"
  by (simp add: init_def overshoot_config_def overshoot_object_def configured_queue_def pop0_def)

lemma overshoot_config_fields:
  "ENEMY_MISSILES_NUMBER overshoot_config = 1" "ENEMY_MISSILES_PROBA_IN overshoot_config = 1"
  "ENEMY_MISSILES_SPEED overshoot_config = 5" "EPISODE_HEIGHT overshoot_config = 4"
  "EPISODE_WIDTH overshoot_config = 16"
  by (simp_all add: overshoot_config_def)

lemma overshoot_start_fields:
  "enemy_missiles overshoot_start = []" "nb_missiles_launched overshoot_start = 0"
  "rng_python overshoot_start = half_rng"
  "start_pos_range overshoot_start = (- (33554433 / 134217728), - (33554433 / 134217728))"
  "end_pos_range overshoot_start = (- (8388609 / 134217728), - (8388609 / 134217728))"
  by (simp_all add: overshoot_start_def reset_def overshoot_object_def)

text \<open>The binary64 numbers of the launch: the two abscissae, the unit vector
  \<open>(3/5, -4/5)\<close> rounded, and its products by the speed 5, which are \<open>3\<close> and
  \<open>-4\<close>.\<close>

lemma float64_slanted:
  "float64 (- (33554433 / 8388608)) = Fin (- (33554433 / 8388608))"
  "float64 (- (8388609 / 8388608)) = Fin (- (8388609 / 8388608))"
  "float64 (3 / 5) = Fin (5404319552844595 / 9007199254740992)"
  "float64 (- (4 / 5)) = Fin (- (3602879701896397 / 4503599627370496))"
  "float64 (27021597764222975 / 9007199254740992) = Fin 3"
  "float64 (- (18014398509481985 / 4503599627370496)) = Fin (- 4)"
  by (simp_all add: float64_eval [where e = 0] float64_eval [where e = 1]
      float64_eval [where e = 2] float64_eval [where e = "- 1"] round_half_even_def)

lemma overshoot_norm:
  "launch_norm overshoot_config (Fin (- (33554433 / 8388608))) (Fin (- (8388609 / 8388608))) = Fin 5"
  by (simp add: launch_norm_def Let_def float_subtract_def np_square_def overshoot_config_fields)

lemma new_missile_slanted:
  "new_missile overshoot_config (Fin (- (33554433 / 8388608))) (Fin (- (8388609 / 8388608))) =
     slanted (- 4) 4"
  by (simp add: new_missile_def overshoot_norm overshoot_config_fields Let_def float_subtract_def
      slanted_def float32_slanted float64_slanted)

lemma overshoot_drawn:
  "start_pos_range s = start_pos_range overshoot_start \<Longrightarrow>
     drawn_x0 overshoot_config s = Fin (- (33554433 / 8388608))"
  "end_pos_range s = end_pos_range overshoot_start \<Longrightarrow>
     drawn_x1 overshoot_config s = Fin (- (8388609 / 8388608))"
  by (simp_all add: drawn_x0_eq drawn_x1_eq overshoot_start_fields overshoot_config_fields
      scaled_def float_subtract_def float64_slanted)

lemma move_slanted_1: "move_missile (slanted (- 4) 4) = slanted (- 1) 0"
  by (simp add: move_missile_def slanted_def Let_def np_subtract_def float32_slanted)

lemma move_slanted_2: "move_missile (slanted (- 1) 0) = slanted (- (8388607 / 8388608)) 0"
  by (simp add: move_missile_def slanted_def Let_def np_subtract_def float32_slanted)

lemma not_hit_slanted:
  "\<not> hit_ground (slanted (- 4) 4)" "\<not> hit_ground (slanted (- 1) 0)"
  "\<not> hit_ground (slanted (- (8388607 / 8388608)) 0)"
  by (simp_all add: hit_ground_def slanted_def)

lemma overshoot_start_rng [simp]: "overshoot_start\<lparr>rng_python := half_rng\<rparr> = overshoot_start"
  by (simp add: overshoot_start_def reset_def Random_def)

lemma overshoot_step_1:
  "step overshoot_config a overshoot_start =
     (False, overshoot_start\<lparr>enemy_missiles := [slanted (- 4) 4], nb_missiles_launched := 1\<rparr>)"
proof -
  have "launch_phase overshoot_config (move_phase overshoot_start) =
      overshoot_start\<lparr>enemy_missiles := [slanted (- 4) 4], nb_missiles_launched := 1,
        rng_python := half_rng\<rparr>"
    by (simp add: move_phase_def launch_phase_eq launch_missile_eq overshoot_drawn
        overshoot_config_fields overshoot_start_fields new_missile_slanted)
  also have "\<dots> =
      overshoot_start\<lparr>enemy_missiles := [slanted (- 4) 4], nb_missiles_launched := 1\<rparr>"
    by (simp add: overshoot_start_def reset_def Random_def)
  finally show ?thesis
    by (simp add: step_def Let_def remove_phase_def not_hit_slanted overshoot_config_fields)
qed

lemma overshoot_step_later:
  assumes "nb_missiles_launched s = 1" and "enemy_missiles s = [m]"
    and "\<not> hit_ground (move_missile m)"
  shows "step overshoot_config a s = (False, s\<lparr>enemy_missiles := [move_missile m]\<rparr>)"
  using assms
  by (simp add: step_def Let_def move_phase_def launch_phase_def remove_phase_def
      overshoot_config_fields)

text \<open>
  \<^bold>\<open>C1.\<close> The claim fails on the array as it is, in binary32. The missile is launched
  from \<open>x = -4\<close> (the binary32 number stored for \<open>-(4 + 1/2^23)\<close>) towards
  \<open>x = -(1 + 1/2^23)\<close> with velocity \<open>(3, -4)\<close>. In its first move the distance
  \<open>3 - 1/2^23\<close> to its target is rounded to 3, the clamp \<open>min(3, 3)\<close> lets it move by 3,
  and it lands on \<open>x = -1\<close>, past its target. It is not removed, and since it moves
  by the sign of its velocity, the next step takes it further away.
\<close>

theorem overshoot_by_rounding:
  "init overshoot_config = Inr overshoot_object
   \<and> observed (trajectory overshoot_config [0, 0, 0] overshoot_start) =
       [(False, [slanted (- 4) 4]), (False, [slanted (- 1) 0]),
        (False, [slanted (- (8388607 / 8388608)) 0])]
   \<and> init_x (slanted (- 1) 0) = Fin (- 4)
   \<and> fin_x (slanted (- 1) 0) = Fin (- (8388609 / 8388608))
   \<and> cur_x (slanted (- 1) 0) = Fin (- 1)
   \<and> \<not> no_overshoot (slanted (- 1) 0)
   \<and> \<not> no_overshoot (slanted (- (8388607 / 8388608)) 0)"
proof -
  have t: "observed (trajectory overshoot_config [0, 0, 0] overshoot_start) =
       [(False, [slanted (- 4) 4]), (False, [slanted (- 1) 0]),
        (False, [slanted (- (8388607 / 8388608)) 0])]"
    by (simp add: observed_def overshoot_step_1 overshoot_step_later
        move_slanted_1 move_slanted_2 not_hit_slanted)
  have f: "init_x (slanted (- 1) 0) = Fin (- 4)"
    "fin_x (slanted (- 1) 0) = Fin (- (8388609 / 8388608))"
    "cur_x (slanted (- 1) 0) = Fin (- 1)"
    by (simp_all add: slanted_def)
  have n: "\<not> no_overshoot (slanted (- 1) 0)"
    "\<not> no_overshoot (slanted (- (8388607 / 8388608)) 0)"
    by (simp_all add: no_overshoot_def lies_between_def slanted_def)
  from init_overshoot t f n show ?thesis by blast
qed

subsection \<open>Time of flight\<close>

lemma float32_slow:
  "float32 (- (3602879701896397 / 18014398509481984)) = Fin (- (13421773 / 67108864))"
  "float32 (- (13421773 / 67108864)) = Fin (- (13421773 / 67108864))"
  "float32 (53687091 / 67108864) = Fin (13421773 / 16777216)"
  "float32 (- (13421773 / 16777216)) = Fin (- (13421773 / 16777216))"
  "float32 (40265319 / 67108864) = Fin (5033165 / 8388608)"
  "float32 (- (5033165 / 8388608)) = Fin (- (5033165 / 8388608))"
  "float32 (26843547 / 67108864) = Fin (6710887 / 16777216)"
  "float32 (- (6710887 / 16777216)) = Fin (- (6710887 / 16777216))"
  "float32 (13421775 / 67108864) = Fin (13421775 / 67108864)"
  "float32 (- (13421775 / 67108864)) = Fin (- (13421775 / 67108864))"
  "float32 (1 / 33554432) = Fin (1 / 33554432)"
  "float32 (- (1 / 33554432)) = Fin (- (1 / 33554432))"
  by (simp_all add: float32_eval [where e = "- 1"] float32_eval [where e = "- 2"]
      float32_eval [where e = "- 3"] float32_eval [where e = "- 25"] round_half_even_def)

lemma slow_config_fields:
  "ENEMY_MISSILES_NUMBER slow_config = 1" "ENEMY_MISSILES_PROBA_IN slow_config = 1"
  "ENEMY_MISSILES_SPEED slow_config = 3602879701896397 / 18014398509481984"
  "EPISODE_HEIGHT slow_config = 1" "EPISODE_WIDTH slow_config = 16"
  by (simp_all add: slow_config_def)

text \<open>The speed is a binary64 number.\<close>

lemma float64_slow:
  "float64 (- (3602879701896397 / 18014398509481984)) =
     Fin (- (3602879701896397 / 18014398509481984))"
  by (simp add: float64_eval [where e = "- 3"] round_half_even_def)

lemma slow_norm: "launch_norm slow_config (Fin 0) (Fin 0) = Fin 1"
  by (simp add: launch_norm_def Let_def float_subtract_def np_square_def slow_config_fields)

lemma new_missile_slow: "new_missile slow_config (Fin 0) (Fin 0) = slow_falling 1"
  by (simp add: new_missile_def slow_norm slow_config_fields Let_def float_subtract_def
      slow_falling_def float32_slow float64_slow)

lemma slow_drawn:
  "start_pos_range s = (0, 0) \<Longrightarrow> drawn_x0 slow_config s = Fin 0"
  "end_pos_range s = (0, 0) \<Longrightarrow> drawn_x1 slow_config s = Fin 0"
  by (simp_all add: drawn_x0_eq drawn_x1_eq scaled_def float_subtract_def)

lemma flight_ticks_slow: "flight_ticks slow_config 0 0 = 5"
proof -
  have "launch_distance slow_config 0 0 = 1"
    by (simp add: launch_distance_def slow_config_fields)
  moreover have "\<lceil>18014398509481984 / 3602879701896397 :: real\<rceil> = 5"
    by (simp add: ceiling_eq_iff)
  ultimately show ?thesis
    by (simp add: flight_ticks_def slow_config_fields)
qed

lemma move_slow:
  "move_missile (slow_falling 1) = slow_falling (13421773 / 16777216)"
  "move_missile (slow_falling (13421773 / 16777216)) = slow_falling (5033165 / 8388608)"
  "move_missile (slow_falling (5033165 / 8388608)) = slow_falling (6710887 / 16777216)"
  "move_missile (slow_falling (6710887 / 16777216)) = slow_falling (13421775 / 67108864)"
  "move_missile (slow_falling (13421775 / 67108864)) = slow_falling (1 / 33554432)"
  "move_missile (slow_falling (1 / 33554432)) = slow_falling 0"
  by (simp_all add: move_missile_def slow_falling_def Let_def np_subtract_def float32_slow)

lemma hit_slow [simp]: "hit_ground (slow_falling y) = (y = 0)"
  by (auto simp add: hit_ground_def slow_falling_def)

lemma fly_slow:
  "(move_missile ^^ 5) (new_missile slow_config (Fin 0) (Fin 0)) = slow_falling (1 / 33554432)"
  "(move_missile ^^ 6) (new_missile slow_config (Fin 0) (Fin 0)) = slow_falling 0"
  by (simp_all add: numeral_eq_Suc new_missile_slow move_slow)

lemma step_single_flying:
  assumes "nb_missiles_launched s = ENEMY_MISSILES_NUMBER cfg" and "enemy_missiles s = [m]"
    and "\<not> hit_ground (move_missile m)"
  shows "step cfg a s = (False, s\<lparr>enemy_missiles := [move_missile m]\<rparr>)"
  using assms
  by (simp add: step_def Let_def move_phase_def launch_phase_def remove_phase_def)

lemma step_single_landing:
  assumes "nb_missiles_launched s = ENEMY_MISSILES_NUMBER cfg" and "enemy_missiles s = [m]"
    and "hit_ground (move_missile m)"
  shows "step cfg a s = (True, s\<lparr>enemy_missiles := []\<rparr>)"
  using assms
  by (simp add: step_def Let_def move_phase_def launch_phase_def remove_phase_def)

lemma init_slow: "init slow_config = Inr scenario_object"
  by (simp add: init_def slow_config_def scenario_object_def configured_queue_def pop0_def)

lemma slow_start_fields:
  "enemy_missiles slow_start = []" "nb_missiles_launched slow_start = 0"
  "rng_python slow_start = half_rng"
  "start_pos_range slow_start = (0, 0)" "end_pos_range slow_start = (0, 0)"
  by (simp_all add: slow_start_def reset_def scenario_object_def)

lemma slow_step_1:
  "step slow_config a slow_start =
     (False, slow_start\<lparr>enemy_missiles := [slow_falling 1], nb_missiles_launched := 1\<rparr>)"
proof -
  have "launch_phase slow_config (move_phase slow_start) =
      slow_start\<lparr>enemy_missiles := [slow_falling 1], nb_missiles_launched := 1,
        rng_python := half_rng\<rparr>"
    by (simp add: move_phase_def launch_phase_eq launch_missile_eq slow_drawn
        slow_config_fields slow_start_fields new_missile_slow)
  also have "\<dots> = slow_start\<lparr>enemy_missiles := [slow_falling 1], nb_missiles_launched := 1\<rparr>"
    by (simp add: slow_start_def reset_def Random_def)
  finally show ?thesis
    by (simp add: step_def Let_def remove_phase_def slow_config_fields)
qed

text \<open>
  \<^bold>\<open>C3.\<close> The claim fails on the array as it is, in binary32. A missile falls from
  height 1 at speed 0.2: the distance is 1 and \<open>ceil(distance / speed) = 5\<close>. The speed
  stored in the array is the binary32 number next above 0.2, and the rounded heights
  are such that after four moves the missile is above \<open>0.2\<close> by more than that; the
  fifth move leaves it at height \<open>1/2^25\<close>, not at its target, and only the sixth
  brings it there. Launched in tick 1, it is active when tick 6 returns and removed in
  tick 7.
\<close>

theorem late_arrival_by_rounding:
  "init slow_config = Inr scenario_object
   \<and> flight_ticks slow_config 0 0 = 5
   \<and> (move_missile ^^ 5) (new_missile slow_config (Fin 0) (Fin 0)) = slow_falling (1 / 33554432)
   \<and> \<not> hit_ground ((move_missile ^^ 5) (new_missile slow_config (Fin 0) (Fin 0)))
   \<and> hit_ground ((move_missile ^^ 6) (new_missile slow_config (Fin 0) (Fin 0)))
   \<and> observed (trajectory slow_config [0, 0, 0, 0, 0, 0, 0] slow_start) =
       [(False, [slow_falling 1]),
        (False, [slow_falling (13421773 / 16777216)]),
        (False, [slow_falling (5033165 / 8388608)]),
        (False, [slow_falling (6710887 / 16777216)]),
        (False, [slow_falling (13421775 / 67108864)]),
        (False, [slow_falling (1 / 33554432)]),
        (True, [])]"
proof -
  have t: "observed (trajectory slow_config [0, 0, 0, 0, 0, 0, 0] slow_start) =
       [(False, [slow_falling 1]),
        (False, [slow_falling (13421773 / 16777216)]),
        (False, [slow_falling (5033165 / 8388608)]),
        (False, [slow_falling (6710887 / 16777216)]),
        (False, [slow_falling (13421775 / 67108864)]),
        (False, [slow_falling (1 / 33554432)]),
        (True, [])]"
    by (simp add: observed_def slow_step_1 step_single_flying step_single_landing
        slow_config_fields move_slow)
  have h: "\<not> hit_ground ((move_missile ^^ 5) (new_missile slow_config (Fin 0) (Fin 0)))"
    "hit_ground ((move_missile ^^ 6) (new_missile slow_config (Fin 0) (Fin 0)))"
    by (simp_all add: fly_slow)
  from init_slow flight_ticks_slow fly_slow(1) h t show ?thesis by blast
qed

end
